theory Spec2Isabelle
  imports Main "HOL-Library.Monad_Syntax"
begin

section \<open>Data model of \<^verbatim>\<open>cantina/logger.h\<close>\<close>

text \<open>
  The embedding follows the POSIX build of the library: neither \<^verbatim>\<open>_WIN32\<close> nor
  \<^verbatim>\<open>__ANDROID_API__\<close> is defined. Objects have the dynamic type \<^verbatim>\<open>Logger\<close>, so the
  virtual \<^verbatim>\<open>EmitLog\<close> is \<^verbatim>\<open>Logger::EmitLog\<close>.
\<close>

datatype LogLevel = Critical | Error | Warning | Info | Debug

text \<open>The enumerator values of \<^verbatim>\<open>enum class LogLevel\<close>; the comparisons of the code
  (\<^verbatim>\<open>level > log_level\<close>, \<^verbatim>\<open>log_level >= LogLevel::Debug\<close>) compare these.\<close>

fun level_num :: "LogLevel \<Rightarrow> nat" where
  "level_num Critical = 0"
| "level_num Error = 1"
| "level_num Warning = 2"
| "level_num Info = 3"
| "level_num Debug = 4"

datatype LogFacility = None_Facility | Console | Syslog | File | AndroidLog

datatype LogTimePrecision = Milliseconds | Microseconds

type_synonym addr = nat
type_synonym thread_id = nat

text \<open>
  \<^verbatim>\<open>LoggingBuf\<close>: a \<^verbatim>\<open>std::stringbuf\<close> (its contents are \<open>str\<close>) with the fields of the
  class. The fields \<^verbatim>\<open>log_level\<close> and \<^verbatim>\<open>console\<close> are \<open>buf_level\<close> and \<open>buf_console\<close>
  here, since \<open>log_level\<close> is also a field of \<^verbatim>\<open>Logger\<close>. The back pointer \<^verbatim>\<open>logger\<close>
  always is the enclosing object; the operations take its address. A default
  \<^verbatim>\<open>std::thread::id\<close> (no thread) is \<open>None\<close>. \<open>signal\<close> counts the calls of
  \<^verbatim>\<open>signal.notify_one()\<close>.
\<close>

record LoggingBuf =
  buf_level :: LogLevel
  buf_console :: bool
  busy :: bool
  owning_thread :: "thread_id option"
  str :: string
  signal :: nat

text \<open>\<^verbatim>\<open>std::ofstream log_file\<close>: whether a file is attached, which one, and the
  stream's failure state.\<close>

record ofstream =
  is_open :: bool
  fname :: string
  failbit :: bool

record Logger =
  process_name :: string
  component_name :: string
  parent_logger :: "addr option"
  log_facility :: LogFacility
  log_level :: LogLevel
  info_buf :: LoggingBuf
  warning_buf :: LoggingBuf
  error_buf :: LoggingBuf
  critical_buf :: LoggingBuf
  debug_buf :: LoggingBuf
  console_buf :: LoggingBuf
  log_file :: ofstream
  output_to_console :: bool
  colorize :: bool
  time_digits :: nat
  time_modulo :: nat

datatype syslog_priority = LOG_CRIT | LOG_ERR | LOG_WARNING | LOG_INFO | LOG_DEBUG

datatype exn = runtime_error string

text \<open>
  The store and the environment. \<open>heap\<close> maps the address of a \<^verbatim>\<open>Logger\<close> object to
  its fields; the addresses below \<open>allocated\<close> are in use, and a \<^verbatim>\<open>LoggerPointer\<close> is an
  address (\<open>None\<close> is \<^verbatim>\<open>nullptr\<close>). \<open>clog\<close> and \<open>cerr\<close> are the lines written to
  \<^verbatim>\<open>std::clog\<close> and \<^verbatim>\<open>std::cerr\<close>, \<open>syslog_msgs\<close> the calls of \<^verbatim>\<open>syslog\<close>,
  \<open>syslog_ident\<close> the identity registered by \<^verbatim>\<open>openlog\<close>, \<open>files\<close> the lines of every
  file, \<open>can_open\<close> whether the operating system opens a path for appending,
  \<open>local_time\<close> and \<open>now_us\<close> the clock (the local time as \<^verbatim>\<open>%FT%T\<close> renders it, and
  the microseconds since the epoch), \<open>color_possible\<close> what \<^verbatim>\<open>IsColorPossible\<close> finds
  (a terminal whose \<^verbatim>\<open>TERM\<close> is not \<^verbatim>\<open>dumb\<close>).
\<close>

record State =
  heap :: "addr \<Rightarrow> Logger"
  allocated :: nat
  clog :: "string list"
  cerr :: "string list"
  syslog_ident :: "string option"
  syslog_msgs :: "(syslog_priority \<times> string) list"
  files :: "string \<Rightarrow> string list"
  can_open :: "string \<Rightarrow> bool"
  local_time :: string
  now_us :: nat
  color_possible :: bool

section \<open>Formatting helpers (\<^verbatim>\<open>logger.cpp\<close>, \<^verbatim>\<open>ansi.cpp\<close>)\<close>

fun LogLevelString :: "LogLevel \<Rightarrow> string" where
  "LogLevelString Critical = ''CRITICAL''"
| "LogLevelString Error = ''ERROR''"
| "LogLevelString Warning = ''WARNING''"
| "LogLevelString Info = ''INFO''"
| "LogLevelString Debug = ''DEBUG''"

fun MapLogLevelToSysLog :: "LogLevel \<Rightarrow> syslog_priority" where
  "MapLogLevelToSysLog Critical = LOG_CRIT"
| "MapLogLevelToSysLog Error = LOG_ERR"
| "MapLogLevelToSysLog Warning = LOG_WARNING"
| "MapLogLevelToSysLog Info = LOG_INFO"
| "MapLogLevelToSysLog Debug = LOG_DEBUG"

definition esc :: "string \<Rightarrow> string" where
  "esc s = CHR 0x1B # s"

definition bold_on :: string where "bold_on = esc ''[1m''"
definition fg_red :: string where "fg_red = esc ''[31m''"
definition fg_green :: string where "fg_green = esc ''[32m''"
definition fg_yellow :: string where "fg_yellow = esc ''[33m''"
definition fg_magenta :: string where "fg_magenta = esc ''[35m''"
definition fg_reset :: string where "fg_reset = esc ''[39m''"
definition reset :: string where "reset = esc ''[0m''"

text \<open>Decimal output of an unsigned number, and \<^verbatim>\<open>std::setfill('0') << std::setw(w)\<close>.\<close>

definition digit_char :: "nat \<Rightarrow> char" where
  "digit_char d = ''0123456789'' ! d"

function to_string :: "nat \<Rightarrow> string" where
  "to_string n = (if n < 10 then [digit_char n] else to_string (n div 10) @ [digit_char (n mod 10)])"
  by pat_completeness auto
termination
  by (relation "measure (\<lambda>n. n)") auto

definition setw0 :: "nat \<Rightarrow> string \<Rightarrow> string" where
  "setw0 w s = replicate (w - length s) (CHR ''0'') @ s"

definition GetTimestamp :: "State \<Rightarrow> Logger \<Rightarrow> string" where
  "GetTimestamp st l =
     local_time st @ ''.'' @ setw0 (time_digits l) (to_string (now_us st mod time_modulo l))"

text \<open>The escape sequences \<^verbatim>\<open>EmitLog\<close> writes before a colorized line.\<close>

fun level_color :: "LogLevel \<Rightarrow> string" where
  "level_color Critical = bold_on @ fg_red"
| "level_color Error = bold_on @ fg_magenta"
| "level_color Warning = bold_on @ fg_yellow"
| "level_color Debug = fg_green"
| "level_color Info = fg_reset"

section \<open>\<^verbatim>\<open>Logger::EmitLog\<close>\<close>

text \<open>\<^verbatim>\<open>log_file << stamped_message << std::endl\<close>: a stream that has failed or has no
  file attached writes nothing.\<close>

definition write_log_file :: "State \<Rightarrow> Logger \<Rightarrow> string \<Rightarrow> State" where
  "write_log_file st l line =
     (if is_open (log_file l) \<and> \<not> failbit (log_file l)
      then st\<lparr>files := (files st)(fname (log_file l) := files st (fname (log_file l)) @ [line])\<rparr>
      else st)"

definition write_clog :: "State \<Rightarrow> Logger \<Rightarrow> LogLevel \<Rightarrow> string \<Rightarrow> State" where
  "write_clog st l level stamped_message =
     (let colorize_log = colorize l
      in st\<lparr>clog := clog st @
            [(if colorize_log then level_color level else []) @ stamped_message @
             (if colorize_log then reset else [])]\<rparr>)"

text \<open>
  The result of an operation that may throw is \<open>Inr\<close> of the state it returns in, or
  \<open>Inl\<close> of the exception and the state at the throw. The mutex \<^verbatim>\<open>logger_mutex\<close> has no
  counterpart in this sequential model.
\<close>

definition EmitLog :: "State \<Rightarrow> addr \<Rightarrow> LogLevel \<Rightarrow> string \<Rightarrow> bool \<Rightarrow> (exn \<times> State) + State" where
  "EmitLog st this level message console =
     (let l = heap st this;
          st1 = (if log_facility l = Syslog
                 then st\<lparr>syslog_msgs := syslog_msgs st @ [(MapLogLevelToSysLog level, message)]\<rparr>
                 else st);
          st2 = (if log_facility l \<noteq> Syslog \<or> console
                 then (let timestamp = GetTimestamp st1 l;
                           stamped_message =
                             timestamp @ '' ['' @ LogLevelString level @ ''] '' @ message;
                           st3 = (if log_facility l = File
                                  then write_log_file st1 l stamped_message else st1)
                       in if log_facility l = Console \<or> console
                          then write_clog st3 l level stamped_message else st3)
                 else st1)
      in if log_facility l = AndroidLog
         then Inl (runtime_error ''Android LogLevel only supported on Android platform'', st2)
         else Inr st2)"

section \<open>\<^verbatim>\<open>Logger::GetLogFacility\<close>, \<^verbatim>\<open>Logger::IsColorized\<close>, \<^verbatim>\<open>Logger::Log\<close>\<close>

text \<open>
  The three functions recurse along the parent pointers of the store. \<open>None\<close> is a call
  that does not return (a cycle of parent pointers).
\<close>

partial_function (option) GetLogFacility :: "State \<Rightarrow> addr \<Rightarrow> LogFacility option" where
  "GetLogFacility st this =
     (case parent_logger (heap st this) of
        Some p \<Rightarrow> GetLogFacility st p
      | None \<Rightarrow> Some (log_facility (heap st this)))"

partial_function (option) IsColorized :: "State \<Rightarrow> addr \<Rightarrow> bool option" where
  "IsColorized st this =
     (case parent_logger (heap st this) of
        Some p \<Rightarrow> IsColorized st p
      | None \<Rightarrow> Some (colorize (heap st this)))"

definition format_message :: "string \<Rightarrow> string \<Rightarrow> string" where
  "format_message component message =
     (if length component > 0 then ''['' @ component @ ''] '' @ message else message)"

partial_function (option) Log ::
  "State \<Rightarrow> addr \<Rightarrow> LogLevel \<Rightarrow> string \<Rightarrow> bool \<Rightarrow> ((exn \<times> State) + State) option" where
  "Log st this level message console0 =
     (let console = console0 \<or> output_to_console (heap st this)
      in case GetLogFacility st this of
           None \<Rightarrow> None
         | Some facility \<Rightarrow>
             if facility = None_Facility then Some (Inr st)
             else if level_num level > level_num (log_level (heap st this)) then Some (Inr st)
             else (let formatted_message =
                         format_message (component_name (heap st this)) message
                   in case parent_logger (heap st this) of
                        Some p \<Rightarrow> Log st p level formatted_message console
                      | None \<Rightarrow> Some (EmitLog st this level formatted_message console)))"

section \<open>Configuration: facility, level, color, time precision\<close>

definition closelog :: "State \<Rightarrow> State" where
  "closelog st = st\<lparr>syslog_ident := None\<rparr>"

text \<open>\<^verbatim>\<open>openlog(ident, LOG_PID, LOG_DAEMON)\<close>; the two constants are the same at every call.\<close>

definition openlog :: "State \<Rightarrow> string \<Rightarrow> State" where
  "openlog st ident = st\<lparr>syslog_ident := Some ident\<rparr>"

text \<open>\<^verbatim>\<open>std::ofstream::close\<close> and \<^verbatim>\<open>std::ofstream::open\<close>: closing a stream with no file
  and opening a stream that has one both fail and set the failure state; an open that
  succeeds clears it.\<close>

definition ofstream_close :: "ofstream \<Rightarrow> ofstream" where
  "ofstream_close f = (if is_open f then f\<lparr>is_open := False\<rparr> else f\<lparr>failbit := True\<rparr>)"

definition ofstream_open :: "State \<Rightarrow> ofstream \<Rightarrow> string \<Rightarrow> ofstream" where
  "ofstream_open st f filename =
     (if is_open f then f\<lparr>failbit := True\<rparr>
      else if can_open st filename then \<lparr>is_open = True, fname = filename, failbit = False\<rparr>
      else f\<lparr>failbit := True\<rparr>)"

definition SetLogFacility :: "State \<Rightarrow> addr \<Rightarrow> LogFacility \<Rightarrow> string \<Rightarrow> State" where
  "SetLogFacility st this facility filename =
     (let l = heap st this
      in if parent_logger l \<noteq> None then st
         else if log_facility l \<noteq> facility
         then (let st1 = (if log_facility l = Syslog then closelog st else st);
                   f1 = (if log_facility l = File then ofstream_close (log_file l)
                         else log_file l);
                   st2 = (if facility = Syslog then openlog st1 (process_name l) else st1);
                   f2 = (if facility = File then ofstream_open st2 f1 filename else f1);
                   failed = (facility = File \<and> \<not> is_open f2);
                   st3 = (if failed
                          then st2\<lparr>cerr := cerr st2 @
                                 [''ERROR: Logger unable to open log file for writing: '' @ filename]\<rparr>
                          else st2);
                   facility' = (if failed then None_Facility else facility)
               in st3\<lparr>heap := (heap st3)(this := l\<lparr>log_file := f2, log_facility := facility'\<rparr>)\<rparr>)
         else st)"

definition SetLogLevel :: "State \<Rightarrow> addr \<Rightarrow> LogLevel \<Rightarrow> State" where
  "SetLogLevel st this level = st\<lparr>heap := (heap st)(this := (heap st this)\<lparr>log_level := level\<rparr>)\<rparr>"

text \<open>\<^verbatim>\<open>::toupper\<close> in the C locale.\<close>

definition toupper :: "char \<Rightarrow> char" where
  "toupper c =
     (case map_of (zip ''abcdefghijklmnopqrstuvwxyz'' ''ABCDEFGHIJKLMNOPQRSTUVWXYZ'') c of
        Some u \<Rightarrow> u
      | None \<Rightarrow> c)"

definition dquote :: string where
  "dquote = [CHR 0x22]"

text \<open>The overload \<^verbatim>\<open>SetLogLevel(const std::string level)\<close>.\<close>

definition SetLogLevel_string ::
  "State \<Rightarrow> addr \<Rightarrow> string \<Rightarrow> ((exn \<times> State) + State) option" where
  "SetLogLevel_string st this level =
     (let level_comparator = map toupper level
      in if level_comparator = ''INFO'' then Some (Inr (SetLogLevel st this Info))
         else if level_comparator = ''ERROR'' then Some (Inr (SetLogLevel st this Error))
         else if level_comparator = ''WARNING'' then Some (Inr (SetLogLevel st this Warning))
         else if level_comparator = ''CRITICAL'' then Some (Inr (SetLogLevel st this Critical))
         else if level_comparator = ''DEBUG'' then Some (Inr (SetLogLevel st this Debug))
         else (let level_error = ''Unknown log level '' @ dquote @ level @ dquote @
                                 ''; setting log level to '' @ dquote @ ''INFO'' @ dquote
               in case Log st this Error level_error True of
                    None \<Rightarrow> None
                  | Some (Inl e) \<Rightarrow> Some (Inl e)
                  | Some (Inr st1) \<Rightarrow> Some (Inr (SetLogLevel st1 this Info))))"

definition GetLogLevel :: "State \<Rightarrow> addr \<Rightarrow> LogLevel" where
  "GetLogLevel st this = log_level (heap st this)"

definition GetLogLevelString :: "State \<Rightarrow> addr \<Rightarrow> string" where
  "GetLogLevelString st this = LogLevelString (log_level (heap st this))"

definition IsDebugging :: "State \<Rightarrow> addr \<Rightarrow> bool" where
  "IsDebugging st this = (level_num (log_level (heap st this)) \<ge> level_num Debug)"

definition IsColorPossible :: "State \<Rightarrow> bool" where
  "IsColorPossible st = color_possible st"

definition Colorize :: "State \<Rightarrow> addr \<Rightarrow> bool \<Rightarrow> State" where
  "Colorize st this colorize_output =
     (if colorize_output \<and> IsColorPossible st
      then st\<lparr>heap := (heap st)(this := (heap st this)\<lparr>colorize := True\<rparr>)\<rparr>
      else st\<lparr>heap := (heap st)(this := (heap st this)\<lparr>colorize := False\<rparr>)\<rparr>)"

fun SetTimePrecision :: "State \<Rightarrow> addr \<Rightarrow> LogTimePrecision \<Rightarrow> State" where
  "SetTimePrecision st this Milliseconds =
     st\<lparr>heap := (heap st)(this := (heap st this)\<lparr>time_digits := 3, time_modulo := 1000\<rparr>)\<rparr>"
| "SetTimePrecision st this Microseconds =
     st\<lparr>heap := (heap st)(this := (heap st this)\<lparr>time_digits := 6, time_modulo := 1000000\<rparr>)\<rparr>"

section \<open>Constructors\<close>

definition new_LoggingBuf :: "LogLevel \<Rightarrow> bool \<Rightarrow> LoggingBuf" where
  "new_LoggingBuf level console =
     \<lparr>buf_level = level, buf_console = console, busy = False, owning_thread = None,
      str = [], signal = 0\<rparr>"

definition new_ofstream :: ofstream where
  "new_ofstream = \<lparr>is_open = False, fname = [], failbit = False\<rparr>"

text \<open>
  The constructor the others delegate to. The new object takes the next free address,
  which the constructor returns with the new store. The call under \<^verbatim>\<open>#ifdef ANDROID\<close> is
  not part of this build.
\<close>

definition Logger_init ::
  "State \<Rightarrow> string \<Rightarrow> string \<Rightarrow> addr option \<Rightarrow> bool \<Rightarrow> (addr \<times> State) option" where
  "Logger_init st process_name' component_name' parent_logger' output_to_console' =
     (case (case parent_logger' of Some p \<Rightarrow> IsColorized st p
                                 | None \<Rightarrow> Some (IsColorPossible st)) of
        None \<Rightarrow> None
      | Some colorize' \<Rightarrow>
          (let this = allocated st;
               obj = \<lparr>process_name = process_name',
                      component_name = component_name',
                      parent_logger = parent_logger',
                      log_facility = Console,
                      log_level = (case parent_logger' of Some p \<Rightarrow> GetLogLevel st p
                                                        | None \<Rightarrow> Info),
                      info_buf = new_LoggingBuf Info False,
                      warning_buf = new_LoggingBuf Warning False,
                      error_buf = new_LoggingBuf Error False,
                      critical_buf = new_LoggingBuf Critical False,
                      debug_buf = new_LoggingBuf Debug False,
                      console_buf = new_LoggingBuf Info True,
                      log_file = new_ofstream,
                      output_to_console = output_to_console',
                      colorize = colorize',
                      time_digits = 6,
                      time_modulo = 1000000\<rparr>
           in Some (this, st\<lparr>heap := (heap st)(this := obj), allocated := Suc this\<rparr>)))"

text \<open>The public constructors: a root without names, with a process name, with process
  and component names, and a child with a component name and a parent.\<close>

definition Logger_root :: "State \<Rightarrow> bool \<Rightarrow> (addr \<times> State) option" where
  "Logger_root st output_to_console' = Logger_init st [] [] None output_to_console'"

definition Logger_process :: "State \<Rightarrow> string \<Rightarrow> bool \<Rightarrow> (addr \<times> State) option" where
  "Logger_process st process_name' output_to_console' =
     Logger_init st process_name' [] None output_to_console'"

definition Logger_component ::
  "State \<Rightarrow> string \<Rightarrow> string \<Rightarrow> bool \<Rightarrow> (addr \<times> State) option" where
  "Logger_component st process_name' component_name' output_to_console' =
     Logger_init st process_name' component_name' None output_to_console'"

definition Logger_child :: "State \<Rightarrow> string \<Rightarrow> addr \<Rightarrow> bool \<Rightarrow> (addr \<times> State) option" where
  "Logger_child st component_name' parent output_to_console' =
     Logger_init st [] component_name' (Some parent) output_to_console'"

section \<open>\<^verbatim>\<open>Logger::LoggingBuf\<close>: the streaming interface\<close>

text \<open>The six buffers of a \<^verbatim>\<open>Logger\<close>, named after the streams \<^verbatim>\<open>info\<close>, \<^verbatim>\<open>warning\<close>,
  \<^verbatim>\<open>error\<close>, \<^verbatim>\<open>critical\<close>, \<^verbatim>\<open>debug\<close> and \<^verbatim>\<open>console\<close> built on them.\<close>

datatype stream = Info_stream | Warning_stream | Error_stream | Critical_stream
  | Debug_stream | Console_stream

fun get_buf :: "Logger \<Rightarrow> stream \<Rightarrow> LoggingBuf" where
  "get_buf l Info_stream = info_buf l"
| "get_buf l Warning_stream = warning_buf l"
| "get_buf l Error_stream = error_buf l"
| "get_buf l Critical_stream = critical_buf l"
| "get_buf l Debug_stream = debug_buf l"
| "get_buf l Console_stream = console_buf l"

fun set_buf :: "Logger \<Rightarrow> stream \<Rightarrow> LoggingBuf \<Rightarrow> Logger" where
  "set_buf l Info_stream b = l\<lparr>info_buf := b\<rparr>"
| "set_buf l Warning_stream b = l\<lparr>warning_buf := b\<rparr>"
| "set_buf l Error_stream b = l\<lparr>error_buf := b\<rparr>"
| "set_buf l Critical_stream b = l\<lparr>critical_buf := b\<rparr>"
| "set_buf l Debug_stream b = l\<lparr>debug_buf := b\<rparr>"
| "set_buf l Console_stream b = l\<lparr>console_buf := b\<rparr>"

definition buf_of :: "State \<Rightarrow> addr \<Rightarrow> stream \<Rightarrow> LoggingBuf" where
  "buf_of st this s = get_buf (heap st this) s"

definition buf_update :: "State \<Rightarrow> addr \<Rightarrow> stream \<Rightarrow> (LoggingBuf \<Rightarrow> LoggingBuf) \<Rightarrow> State" where
  "buf_update st this s f =
     st\<lparr>heap := (heap st)(this := set_buf (heap st this) s (f (get_buf (heap st this) s)))\<rparr>"

text \<open>The predicate \<^verbatim>\<open>thread_sync\<close> waits for, evaluated by the thread \<open>me\<close>.\<close>

definition wait_pred :: "LoggingBuf \<Rightarrow> thread_id \<Rightarrow> bool" where
  "wait_pred b me = (\<not> busy b \<or> (busy b \<and> owning_thread b = Some me))"

text \<open>
  \<^verbatim>\<open>thread_sync\<close>, as the calling thread \<open>me\<close> sees it. When the predicate holds at the call,
  \<^verbatim>\<open>wait_for\<close> returns true at once. Otherwise the thread blocks, and \<open>after_wait\<close> is the
  store as the other threads have left it when \<^verbatim>\<open>wait_for\<close> returns; its result is the
  predicate on that store (false: the wait has timed out). How long the wait lasts and
  what the other threads do meanwhile is outside this model.
\<close>

definition thread_sync ::
  "State \<Rightarrow> addr \<Rightarrow> stream \<Rightarrow> thread_id \<Rightarrow> State \<Rightarrow> ((exn \<times> State) + State) option" where
  "thread_sync st this s me after_wait =
     (let st0 = (if wait_pred (buf_of st this s) me then st else after_wait);
          wait_result = wait_pred (buf_of st0 this s) me
      in case (if \<not> wait_result
               then (case Log st0 this Error ''Somebody forgot to call std::flush!?'' False of
                       None \<Rightarrow> None
                     | Some (Inl e) \<Rightarrow> Some (Inl e)
                     | Some (Inr st1) \<Rightarrow> Some (Inr (buf_update st1 this s (\<lambda>b. b\<lparr>busy := False\<rparr>))))
               else Some (Inr st0)) of
           None \<Rightarrow> None
         | Some (Inl e) \<Rightarrow> Some (Inl e)
         | Some (Inr st2) \<Rightarrow>
             Some (Inr (if \<not> busy (buf_of st2 this s)
                        then buf_update st2 this s (\<lambda>b. b\<lparr>busy := True, owning_thread := Some me\<rparr>)
                        else st2)))"

text \<open>\<^verbatim>\<open>xsputn(c, n)\<close>: the \<open>n\<close> characters are the string \<open>cs\<close>.\<close>

definition xsputn ::
  "State \<Rightarrow> addr \<Rightarrow> stream \<Rightarrow> thread_id \<Rightarrow> State \<Rightarrow> string \<Rightarrow> ((exn \<times> State) + State) option" where
  "xsputn st this s me after_wait cs =
     (case thread_sync st this s me after_wait of
        None \<Rightarrow> None
      | Some (Inl e) \<Rightarrow> Some (Inl e)
      | Some (Inr st1) \<Rightarrow> Some (Inr (buf_update st1 this s (\<lambda>b. b\<lparr>str := str b @ cs\<rparr>))))"

text \<open>\<^verbatim>\<open>sync()\<close>, which \<^verbatim>\<open>std::flush\<close> calls.\<close>

definition sync ::
  "State \<Rightarrow> addr \<Rightarrow> stream \<Rightarrow> thread_id \<Rightarrow> State \<Rightarrow> ((exn \<times> State) + State) option" where
  "sync st this s me after_wait =
     (case thread_sync st this s me after_wait of
        None \<Rightarrow> None
      | Some (Inl e) \<Rightarrow> Some (Inl e)
      | Some (Inr st1) \<Rightarrow>
          (case Log st1 this (buf_level (buf_of st1 this s)) (str (buf_of st1 this s))
                  (buf_console (buf_of st1 this s)) of
             None \<Rightarrow> None
           | Some (Inl e) \<Rightarrow> Some (Inl e)
           | Some (Inr st2) \<Rightarrow>
               (let st3 = buf_update st2 this s (\<lambda>b. b\<lparr>str := []\<rparr>);
                    st4 = buf_update st3 this s (\<lambda>b. b\<lparr>busy := False\<rparr>);
                    st5 = buf_update st4 this s (\<lambda>b. b\<lparr>signal := Suc (signal b)\<rparr>)
                in Some (Inr st5))))"

section \<open>Well-formed stores and the chain of parents\<close>

text \<open>
  A parent is passed to the constructor of its child and never changes, so it was
  constructed before the child: its address is below the child's.
\<close>

definition wf_heap :: "State \<Rightarrow> bool" where
  "wf_heap st = (\<forall>a < allocated st.
                   case parent_logger (heap st a) of None \<Rightarrow> True | Some p \<Rightarrow> p < a)"

text \<open>The nodes from \<open>a\<close> up to its root, \<open>a\<close> first, and the root itself.\<close>

function chain :: "State \<Rightarrow> addr \<Rightarrow> addr list" where
  "chain st a =
     a # (case parent_logger (heap st a) of
            None \<Rightarrow> []
          | Some p \<Rightarrow> if p < a then chain st p else [])"
  by pat_completeness auto
termination
  by (relation "measure (\<lambda>(st, a). a)") auto

definition root_of :: "State \<Rightarrow> addr \<Rightarrow> addr" where
  "root_of st a = last (chain st a)"

text \<open>The text that leaves the last node of \<open>ns\<close> when \<open>message\<close> enters the first, and
  whether a node of \<open>ns\<close> forces the console.\<close>

definition labelled :: "State \<Rightarrow> addr list \<Rightarrow> string \<Rightarrow> string" where
  "labelled st ns message =
     foldl (\<lambda>m n. if component_name (heap st n) = [] then m
                    else ''['' @ component_name (heap st n) @ ''] '' @ m) message ns"

definition forced :: "State \<Rightarrow> addr list \<Rightarrow> bool" where
  "forced st ns = list_ex (\<lambda>n. output_to_console (heap st n)) ns"

definition accepts :: "State \<Rightarrow> LogLevel \<Rightarrow> addr \<Rightarrow> bool" where
  "accepts st level n = (level_num level \<le> level_num (log_level (heap st n)))"

section \<open>Fixtures: small stores for concrete runs\<close>

text \<open>An object as the constructor leaves it on a terminal without color, with the given
  component name, parent, facility and level.\<close>

definition mk_Logger :: "string \<Rightarrow> addr option \<Rightarrow> LogFacility \<Rightarrow> LogLevel \<Rightarrow> Logger" where
  "mk_Logger name parent facility level =
     \<lparr>process_name = [], component_name = name, parent_logger = parent,
      log_facility = facility, log_level = level,
      info_buf = new_LoggingBuf Info False,
      warning_buf = new_LoggingBuf Warning False,
      error_buf = new_LoggingBuf Error False,
      critical_buf = new_LoggingBuf Critical False,
      debug_buf = new_LoggingBuf Debug False,
      console_buf = new_LoggingBuf Info True,
      log_file = new_ofstream, output_to_console = False, colorize = False,
      time_digits = 6, time_modulo = 1000000\<rparr>"

text \<open>A store of \<open>n\<close> objects with nothing written yet, where no file can be opened.\<close>

definition mk_State :: "(addr \<Rightarrow> Logger) \<Rightarrow> nat \<Rightarrow> State" where
  "mk_State h n =
     \<lparr>heap = h, allocated = n, clog = [], cerr = [], syslog_ident = None, syslog_msgs = [],
      files = (\<lambda>_. []), can_open = (\<lambda>_. False), local_time = ''2023-08-24T14:38:05'',
      now_us = 824097, color_possible = False\<rparr>"

definition empty_State :: State where
  "empty_State = mk_State (\<lambda>_. mk_Logger [] None Console Info) 0"

text \<open>A root at address 0 and its child at address 1.\<close>

definition two_nodes :: "Logger \<Rightarrow> Logger \<Rightarrow> State" where
  "two_nodes root child = mk_State ((\<lambda>_. root)(Suc 0 := child)) 2"

definition ltst_tree :: State where
  "ltst_tree = two_nodes (mk_Logger [] None Console Info)
                 (mk_Logger ''LTST'' (Some 0) Console Info)"

definition none_tree :: State where
  "none_tree = two_nodes (mk_Logger [] None None_Facility Info)
                 (mk_Logger ''CHLD'' (Some 0) Console Debug)"

definition strict_tree :: State where
  "strict_tree = two_nodes (mk_Logger [] None Console Warning)
                   (mk_Logger ''CHLD'' (Some 0) Console Debug)"

definition syslog_tree :: State where
  "syslog_tree = two_nodes (mk_Logger [] None Syslog Warning)
                   (mk_Logger ''CHLD'' (Some 0) Console Debug)"

text \<open>The root can take a line: a \<^verbatim>\<open>File\<close> facility has its stream open and sound (as
  \<^verbatim>\<open>SetLogFacility\<close> leaves it).\<close>

definition sink_ready :: "Logger \<Rightarrow> bool" where
  "sink_ready l = (log_facility l \<noteq> File \<or> (is_open (log_file l) \<and> \<not> failbit (log_file l)))"

definition quiet_child_tree :: State where
  "quiet_child_tree = two_nodes (mk_Logger [] None Console Debug)
                        (mk_Logger ''LTST'' (Some 0) Console Warning)"

text \<open>A root at address 0, its child at address 1 and the child's child at address 2.\<close>

definition three_nodes :: "Logger \<Rightarrow> Logger \<Rightarrow> Logger \<Rightarrow> State" where
  "three_nodes root child grandchild =
     mk_State ((\<lambda>_. root)(Suc 0 := child, Suc (Suc 0) := grandchild)) 3"

definition foo_bar_tree :: State where
  "foo_bar_tree = three_nodes (mk_Logger [] None Console Info)
                    (mk_Logger ''Foo'' (Some 0) Console Info)
                    (mk_Logger ''Bar'' (Some 1) Console Info)"

text \<open>The five level names, and the message \<^verbatim>\<open>SetLogLevel\<close> logs for any other string.\<close>

definition level_names :: "(string \<times> LogLevel) list" where
  "level_names = [(''CRITICAL'', Critical), (''ERROR'', Error), (''WARNING'', Warning),
                  (''INFO'', Info), (''DEBUG'', Debug)]"

definition unknown_level_error :: "string \<Rightarrow> string" where
  "unknown_level_error level =
     ''Unknown log level '' @ dquote @ level @ dquote @ ''; setting log level to '' @
     dquote @ ''INFO'' @ dquote"

text \<open>The line \<^verbatim>\<open>SetLogFacility\<close> writes to \<^verbatim>\<open>std::cerr\<close> when the log file cannot be
  opened, and the property of the stream that \<^verbatim>\<open>SetLogFacility\<close> maintains: a file is
  attached only under the facility \<^verbatim>\<open>File\<close>.\<close>

definition open_failed_error :: "string \<Rightarrow> string" where
  "open_failed_error filename = ''ERROR: Logger unable to open log file for writing: '' @ filename"

definition file_inv :: "Logger \<Rightarrow> bool" where
  "file_inv l = (log_facility l = File \<or> \<not> is_open (log_file l))"

text \<open>Stores with a single root.\<close>

definition one_node :: "Logger \<Rightarrow> State" where
  "one_node root = mk_State (\<lambda>_. root) 1"

definition android_root :: State where
  "android_root = one_node (mk_Logger [] None AndroidLog Warning)"

definition console_root :: State where
  "console_root = one_node (mk_Logger [] None Console Debug)"

definition syslog_root :: State where
  "syslog_root = (one_node (mk_Logger [] None Syslog Info))\<lparr>syslog_ident := Some ''proc''\<rparr>"

definition file_root :: State where
  "file_root = SetLogFacility ((one_node (mk_Logger [] None Console Info))\<lparr>can_open := (\<lambda>_. True)\<rparr>)
                 0 File ''app.log''"

text \<open>An empty store on a terminal that takes color.\<close>

definition color_State :: State where
  "color_State = empty_State\<lparr>color_possible := True\<rparr>"

definition android_debug_root :: State where
  "android_debug_root = one_node (mk_Logger [] None AndroidLog Debug)"

text \<open>The store in which the thread \<open>me\<close> owns a buffer that holds \<open>text\<close>, and a buffer as
  a completed \<^verbatim>\<open>sync\<close> leaves it.\<close>

definition owned :: "State \<Rightarrow> addr \<Rightarrow> stream \<Rightarrow> thread_id \<Rightarrow> string \<Rightarrow> State" where
  "owned st this s me text =
     buf_update st this s (\<lambda>b. b\<lparr>busy := True, owning_thread := Some me, str := text\<rparr>)"

definition flushed :: "LoggingBuf \<Rightarrow> LoggingBuf" where
  "flushed b = b\<lparr>str := [], busy := False, signal := Suc (signal b)\<rparr>"

definition console_owned :: State where
  "console_owned = owned console_root 0 Warning_stream 7 ''low disk''"

definition critical_root :: State where
  "critical_root = one_node (mk_Logger [] None Console Critical)"

text \<open>The line \<^verbatim>\<open>EmitLog\<close> stamps, the form it takes on the console, the number of
  records in the sink of the root \<open>r\<close>, and the exception of the \<^verbatim>\<open>AndroidLog\<close> facility
  on this build.\<close>

definition stamped :: "State \<Rightarrow> Logger \<Rightarrow> LogLevel \<Rightarrow> string \<Rightarrow> string" where
  "stamped st l level text = GetTimestamp st l @ '' ['' @ LogLevelString level @ ''] '' @ text"

definition console_line :: "Logger \<Rightarrow> LogLevel \<Rightarrow> string \<Rightarrow> string" where
  "console_line l level line =
     (if colorize l then level_color level @ line @ reset else line)"

definition sink_records :: "State \<Rightarrow> addr \<Rightarrow> nat" where
  "sink_records st r =
     (case log_facility (heap st r) of
        Console \<Rightarrow> length (clog st)
      | Syslog \<Rightarrow> length (syslog_msgs st)
      | File \<Rightarrow> length (files st (fname (log_file (heap st r))))
      | None_Facility \<Rightarrow> 0
      | AndroidLog \<Rightarrow> 0)"

definition unsupported :: exn where
  "unsupported = runtime_error ''Android LogLevel only supported on Android platform''"

section \<open>Facts about the chain of parents\<close>

declare chain.simps [simp del]
declare to_string.simps [simp del]

lemma chain_root: "parent_logger (heap st a) = None \<Longrightarrow> chain st a = [a]"
  by (subst chain.simps) simp

lemma chain_child:
  "parent_logger (heap st a) = Some p \<Longrightarrow> p < a \<Longrightarrow> chain st a = a # chain st p"
  by (subst chain.simps) simp

lemma chain_not_Nil: "chain st a \<noteq> []"
  by (subst chain.simps) simp

lemma root_of_root: "parent_logger (heap st a) = None \<Longrightarrow> root_of st a = a"
  by (simp add: root_of_def chain_root)

lemma root_of_child:
  "parent_logger (heap st a) = Some p \<Longrightarrow> p < a \<Longrightarrow> root_of st a = root_of st p"
  by (simp add: root_of_def chain_child chain_not_Nil)

lemma wf_heap_parent:
  "wf_heap st \<Longrightarrow> a < allocated st \<Longrightarrow> parent_logger (heap st a) = Some p \<Longrightarrow> p < a"
  unfolding wf_heap_def by (auto split: option.splits)

lemma root_of_is_root:
  "wf_heap st \<Longrightarrow> a < allocated st \<Longrightarrow>
   parent_logger (heap st (root_of st a)) = None \<and> root_of st a \<le> a"
proof (induction a rule: less_induct)
  case (less a)
  show ?case
  proof (cases "parent_logger (heap st a)")
    case None
    then show ?thesis by (simp add: root_of_root)
  next
    case (Some p)
    with less.prems have lt: "p < a" by (auto dest: wf_heap_parent)
    with less.prems have "p < allocated st" by simp
    with less.IH [OF lt] less.prems
    have "parent_logger (heap st (root_of st p)) = None \<and> root_of st p \<le> p" by simp
    with Some lt show ?thesis by (simp add: root_of_child)
  qed
qed

lemma GetLogFacility_root_of:
  "wf_heap st \<Longrightarrow> a < allocated st \<Longrightarrow>
   GetLogFacility st a = Some (log_facility (heap st (root_of st a)))"
proof (induction a rule: less_induct)
  case (less a)
  show ?case
  proof (cases "parent_logger (heap st a)")
    case None
    then show ?thesis by (subst GetLogFacility.simps) (simp add: root_of_root)
  next
    case (Some p)
    with less.prems have lt: "p < a" by (auto dest: wf_heap_parent)
    with less.prems have "p < allocated st" by simp
    with less.IH [OF lt] less.prems
    have "GetLogFacility st p = Some (log_facility (heap st (root_of st p)))" by simp
    with Some lt show ?thesis by (subst GetLogFacility.simps) (simp add: root_of_child)
  qed
qed

lemma IsColorized_root_of:
  "wf_heap st \<Longrightarrow> a < allocated st \<Longrightarrow>
   IsColorized st a = Some (colorize (heap st (root_of st a)))"
proof (induction a rule: less_induct)
  case (less a)
  show ?case
  proof (cases "parent_logger (heap st a)")
    case None
    then show ?thesis by (subst IsColorized.simps) (simp add: root_of_root)
  next
    case (Some p)
    with less.prems have lt: "p < a" by (auto dest: wf_heap_parent)
    with less.prems have "p < allocated st" by simp
    with less.IH [OF lt] less.prems
    have "IsColorized st p = Some (colorize (heap st (root_of st p)))" by simp
    with Some lt show ?thesis by (subst IsColorized.simps) (simp add: root_of_child)
  qed
qed

lemma labelled_Cons:
  "labelled st (n # ns) m = labelled st ns (format_message (component_name (heap st n)) m)"
  by (simp add: labelled_def format_message_def)

lemma forced_Cons: "forced st (n # ns) = (output_to_console (heap st n) \<or> forced st ns)"
  by (simp add: forced_def)

text \<open>What a call of \<^verbatim>\<open>Log\<close> amounts to when the root's facility is not \<^verbatim>\<open>None\<close>: the
  emission at the root of the prefixed text when every node of the chain accepts the
  level, and no effect otherwise.\<close>

lemma Log_chain:
  "wf_heap st \<Longrightarrow> a < allocated st \<Longrightarrow>
   log_facility (heap st (root_of st a)) \<noteq> None_Facility \<Longrightarrow>
   Log st a level message console =
     (if list_all (accepts st level) (chain st a)
      then Some (EmitLog st (root_of st a) level (labelled st (chain st a) message)
                   (console \<or> forced st (chain st a)))
      else Some (Inr st))"
proof (induction a arbitrary: message console rule: less_induct)
  case (less a)
  have fac: "GetLogFacility st a = Some (log_facility (heap st (root_of st a)))"
    using less.prems by (simp add: GetLogFacility_root_of)
  show ?case
  proof (cases "parent_logger (heap st a)")
    case None
    with fac less.prems(3) show ?thesis
      by (subst Log.simps)
        (simp add: root_of_root chain_root labelled_def format_message_def forced_def
          accepts_def Let_def)
  next
    case (Some p)
    with less.prems have lt: "p < a" by (auto dest: wf_heap_parent)
    with less.prems have pa: "p < allocated st" by simp
    have rp: "root_of st a = root_of st p" using Some lt by (rule root_of_child)
    have IH: "\<And>m c. Log st p level m c =
     (if list_all (accepts st level) (chain st p)
      then Some (EmitLog st (root_of st p) level (labelled st (chain st p) m)
                   (c \<or> forced st (chain st p)))
      else Some (Inr st))"
      using less.IH [OF lt less.prems(1) pa] less.prems(3) rp by simp
    show ?thesis
      using Some lt fac less.prems(3)
      by (subst Log.simps)
        (auto simp add: IH rp chain_child labelled_Cons forced_Cons accepts_def Let_def)
  qed
qed

lemma Log_None_Facility:
  "wf_heap st \<Longrightarrow> a < allocated st \<Longrightarrow>
   log_facility (heap st (root_of st a)) = None_Facility \<Longrightarrow>
   Log st a level message console = Some (Inr st)"
  by (subst Log.simps) (simp add: GetLogFacility_root_of Let_def)

section \<open>Facts about the fixtures\<close>

lemma two_nodes_heap [simp]:
  "heap (two_nodes r c) 0 = r" "heap (two_nodes r c) (Suc 0) = c"
  "allocated (two_nodes r c) = 2"
  by (simp_all add: two_nodes_def mk_State_def)

lemma two_nodes_wf:
  "parent_logger r = None \<Longrightarrow> parent_logger c = Some 0 \<Longrightarrow> wf_heap (two_nodes r c)"
  by (auto simp add: wf_heap_def less_Suc_eq numeral_2_eq_2)

lemma two_nodes_chain:
  "parent_logger r = None \<Longrightarrow> parent_logger c = Some 0 \<Longrightarrow>
   chain (two_nodes r c) (Suc 0) = [Suc 0, 0] \<and> chain (two_nodes r c) 0 = [0] \<and>
   root_of (two_nodes r c) (Suc 0) = 0 \<and> root_of (two_nodes r c) 0 = 0"
  by (simp add: chain_child chain_root root_of_def)

lemma mk_Logger_sel [simp]:
  "parent_logger (mk_Logger n p f l) = p" "component_name (mk_Logger n p f l) = n"
  "log_facility (mk_Logger n p f l) = f" "log_level (mk_Logger n p f l) = l"
  "output_to_console (mk_Logger n p f l) = False" "colorize (mk_Logger n p f l) = False"
  by (simp_all add: mk_Logger_def)

section \<open>The facility is the root's, the level is the node's own\<close>

text \<open>
  Claim C7. In a tree of loggers, \<^verbatim>\<open>Log\<close> on any node (the root or a descendant at any
  depth) first asks for the facility, which \<^verbatim>\<open>GetLogFacility\<close> reads from the root by
  following the parent pointers. When the root's facility is \<^verbatim>\<open>None\<close>, the call returns
  in the state it was made in: no sink has received text, nothing was forwarded, and no
  node has changed.
\<close>

theorem Log_sink_None:
  "wf_heap st \<Longrightarrow> this < allocated st \<Longrightarrow>
   parent_logger (heap st (root_of st this)) = None \<and>
   GetLogFacility st this = Some (log_facility (heap st (root_of st this))) \<and>
   (log_facility (heap st (root_of st this)) = None_Facility \<longrightarrow>
      Log st this level message console = Some (Inr st))"
  by (simp add: root_of_is_root GetLogFacility_root_of Log_None_Facility)

theorem Log_sink_None_witness:
  "GetLogFacility none_tree 1 = Some None_Facility \<and>
   Log none_tree 1 Error ''disk full'' True = Some (Inr none_tree)"
  using Log_sink_None [of none_tree 1 Error "''disk full''" True]
  by (simp add: none_tree_def two_nodes_wf two_nodes_chain)

text \<open>
  Claim C9. For every node, \<^verbatim>\<open>GetLogFacility\<close> returns the facility stored in the root
  of its tree: a node with a parent returns what its parent returns, and so on up to
  the node without a parent. \<^verbatim>\<open>GetLogLevel\<close> returns the level stored in the node
  itself, whatever level is set on any other node.
\<close>

theorem GetLogFacility_delegates:
  "wf_heap st \<Longrightarrow> this < allocated st \<Longrightarrow>
   GetLogFacility st this = Some (log_facility (heap st (root_of st this))) \<and>
   parent_logger (heap st (root_of st this)) = None \<and>
   (\<forall>p. parent_logger (heap st this) = Some p \<longrightarrow>
        GetLogFacility st this = GetLogFacility st p) \<and>
   GetLogLevel st this = log_level (heap st this) \<and>
   (\<forall>n level. n \<noteq> this \<longrightarrow>
        GetLogLevel (SetLogLevel st n level) this = GetLogLevel st this)"
  apply (intro conjI)
      apply (simp add: GetLogFacility_root_of)
     apply (simp add: root_of_is_root)
    apply (subst GetLogFacility.simps, simp)
   apply (simp add: GetLogLevel_def)
  apply (simp add: GetLogLevel_def SetLogLevel_def)
  done

theorem GetLogFacility_delegates_witness:
  "GetLogFacility syslog_tree 1 = Some Syslog \<and>
   log_facility (heap syslog_tree 1) = Console \<and>
   GetLogLevel syslog_tree 1 = Debug \<and> GetLogLevel syslog_tree 0 = Warning \<and>
   GetLogLevel (SetLogLevel syslog_tree 0 Critical) 1 = Debug"
  using GetLogFacility_delegates [of syslog_tree 1]
  by (simp add: syslog_tree_def two_nodes_wf two_nodes_chain GetLogLevel_def SetLogLevel_def)

lemma three_nodes_heap [simp]:
  "heap (three_nodes r c g) 0 = r" "heap (three_nodes r c g) (Suc 0) = c"
  "heap (three_nodes r c g) (Suc (Suc 0)) = g" "allocated (three_nodes r c g) = 3"
  by (simp_all add: three_nodes_def mk_State_def)

lemma three_nodes_wf:
  "parent_logger r = None \<Longrightarrow> parent_logger c = Some 0 \<Longrightarrow> parent_logger g = Some (Suc 0) \<Longrightarrow>
   wf_heap (three_nodes r c g)"
  by (auto simp add: wf_heap_def less_Suc_eq numeral_3_eq_3)

lemma three_nodes_chain:
  "parent_logger r = None \<Longrightarrow> parent_logger c = Some 0 \<Longrightarrow> parent_logger g = Some (Suc 0) \<Longrightarrow>
   chain (three_nodes r c g) (Suc (Suc 0)) = [Suc (Suc 0), Suc 0, 0] \<and>
   root_of (three_nodes r c g) (Suc (Suc 0)) = 0"
  by (simp add: chain_child chain_root root_of_def)

section \<open>What \<^verbatim>\<open>EmitLog\<close> and one step of \<^verbatim>\<open>Log\<close> do\<close>

lemma write_clog_fields [simp]:
  "syslog_msgs (write_clog st l level s) = syslog_msgs st"
  "files (write_clog st l level s) = files st"
  "heap (write_clog st l level s) = heap st"
  "allocated (write_clog st l level s) = allocated st"
  by (simp_all add: write_clog_def Let_def)

lemma write_log_file_fields [simp]:
  "syslog_msgs (write_log_file st l s) = syslog_msgs st"
  "clog (write_log_file st l s) = clog st"
  "heap (write_log_file st l s) = heap st"
  "allocated (write_log_file st l s) = allocated st"
  by (simp_all add: write_log_file_def)

lemma EmitLog_Syslog:
  "log_facility (heap st r) = Syslog \<Longrightarrow> EmitLog st r level message console = Inr st' \<Longrightarrow>
   syslog_msgs st' = syslog_msgs st @ [(MapLogLevelToSysLog level, message)]"
  by (auto simp add: EmitLog_def Let_def split: if_splits)

lemma EmitLog_File:
  "log_facility (heap st r) = File \<Longrightarrow> is_open (log_file (heap st r)) \<Longrightarrow>
   \<not> failbit (log_file (heap st r)) \<Longrightarrow>
   EmitLog st r level message console = Inr st' \<Longrightarrow>
   length (files st' (fname (log_file (heap st r)))) =
   Suc (length (files st (fname (log_file (heap st r)))))"
  by (auto simp add: EmitLog_def Let_def write_log_file_def split: if_splits)

lemma EmitLog_Console:
  "log_facility (heap st r) = Console \<Longrightarrow> EmitLog st r level message console = Inr st' \<Longrightarrow>
   length (clog st') = Suc (length (clog st))"
  by (auto simp add: EmitLog_def Let_def write_clog_def split: if_splits)

lemma EmitLog_observable:
  assumes "log_facility (heap st r) \<noteq> None_Facility" "sink_ready (heap st r)"
  shows "EmitLog st r level message console \<noteq> Inr st"
proof (cases "log_facility (heap st r)")
  case None_Facility
  with assms show ?thesis by simp
next
  case Console
  then show ?thesis by (auto dest: EmitLog_Console)
next
  case Syslog
  then show ?thesis by (auto dest: EmitLog_Syslog)
next
  case File
  with assms(2) show ?thesis by (auto simp add: sink_ready_def dest: EmitLog_File)
next
  case AndroidLog
  then show ?thesis by (simp add: EmitLog_def Let_def)
qed

lemma EmitLog_heap:
  "EmitLog st r level message console = Inr st' \<Longrightarrow> heap st' = heap st \<and> allocated st' = allocated st"
  "EmitLog st r level message console = Inl (e, st') \<Longrightarrow> heap st' = heap st \<and> allocated st' = allocated st"
  by (auto simp add: EmitLog_def Let_def split: if_splits)

lemma Log_step:
  assumes "wf_heap st" "this < allocated st"
    "log_facility (heap st (root_of st this)) \<noteq> None_Facility" "accepts st level this"
  shows "Log st this level message console =
     (case parent_logger (heap st this) of
        Some p \<Rightarrow> Log st p level (format_message (component_name (heap st this)) message)
                    (console \<or> output_to_console (heap st this))
      | None \<Rightarrow> Some (EmitLog st this level
                    (format_message (component_name (heap st this)) message)
                    (console \<or> output_to_console (heap st this))))"
  using assms
  by (subst Log.simps) (simp add: GetLogFacility_root_of accepts_def Let_def)

lemma chain_hd_tl: "chain st a = a # tl (chain st a)"
proof -
  have "\<exists>ns. chain st a = a # ns" by (subst chain.simps) blast
  then show ?thesis by auto
qed

lemma format_message_eq:
  "format_message c m = (if c = [] then m else ''['' @ c @ ''] '' @ m)"
  by (simp add: format_message_def)

section \<open>Severity filtering\<close>

text \<open>
  Claim C2 says that a parent applies no severity filter to what a child forwards. The
  code runs the parent's own check on the forwarded message: a child at threshold Debug
  under a console root at threshold Warning accepts a Debug message, and the call leaves
  the state as it was, although an emission at the root would have changed it.
\<close>

theorem parent_filters_counterexample:
  "parent_logger (heap strict_tree 1) = Some 0 \<and> accepts strict_tree Debug 1 \<and>
   GetLogFacility strict_tree 1 = Some Console \<and>
   Log strict_tree 1 Debug ''m'' False = Some (Inr strict_tree) \<and>
   EmitLog strict_tree 0 Debug ''[CHLD] m'' False \<noteq> Inr strict_tree"
proof -
  have wf: "wf_heap strict_tree" by (simp add: strict_tree_def two_nodes_wf)
  have al: "1 < allocated strict_tree" by (simp add: strict_tree_def)
  have ch: "chain strict_tree 1 = [1, 0]" "root_of strict_tree 1 = 0"
    by (simp_all add: strict_tree_def two_nodes_chain)
  have fac: "log_facility (heap strict_tree 0) = Console" by (simp add: strict_tree_def)
  have "Log strict_tree 1 Debug ''m'' False = Some (Inr strict_tree)"
    using Log_chain [OF wf al, of Debug "''m''" False] ch fac
    by (simp add: accepts_def strict_tree_def)
  moreover have "GetLogFacility strict_tree 1 = Some Console"
    using GetLogFacility_root_of [OF wf al] ch fac by simp
  moreover have "EmitLog strict_tree 0 Debug ''[CHLD] m'' False \<noteq> Inr strict_tree"
    by (rule EmitLog_observable) (simp_all add: fac sink_ready_def)
  ultimately show ?thesis by (simp add: strict_tree_def accepts_def)
qed

text \<open>
  Claim C2, amended. When a node with a parent accepts a message, \<^verbatim>\<open>Log\<close> forwards the
  prefixed text to the parent, and the parent applies its own severity check to it, as
  does every node above: the forwarded message reaches the root's \<^verbatim>\<open>EmitLog\<close> if and
  only if every node from the parent up to the root accepts the level, and a parent
  that does not accept it returns without effect.
\<close>

theorem Log_parent_filters:
  assumes "wf_heap st" "this < allocated st" "parent_logger (heap st this) = Some p"
    "log_facility (heap st (root_of st this)) \<noteq> None_Facility" "accepts st level this"
  shows "Log st this level message console =
           Log st p level (format_message (component_name (heap st this)) message)
             (console \<or> output_to_console (heap st this)) \<and>
         (\<forall>m c. Log st p level m c =
           (if list_all (accepts st level) (chain st p)
            then Some (EmitLog st (root_of st p) level (labelled st (chain st p) m)
                         (c \<or> forced st (chain st p)))
            else Some (Inr st))) \<and>
         (\<forall>m c. \<not> accepts st level p \<longrightarrow> Log st p level m c = Some (Inr st))"
proof -
  have lt: "p < this" using assms(1-3) by (rule wf_heap_parent)
  then have pa: "p < allocated st" using assms(2) by simp
  have rp: "root_of st this = root_of st p" using assms(3) lt by (rule root_of_child)
  then have fp: "log_facility (heap st (root_of st p)) \<noteq> None_Facility" using assms(4) by simp
  have all: "\<And>m c. Log st p level m c =
           (if list_all (accepts st level) (chain st p)
            then Some (EmitLog st (root_of st p) level (labelled st (chain st p) m)
                         (c \<or> forced st (chain st p)))
            else Some (Inr st))"
    using Log_chain [OF assms(1) pa fp] by simp
  have rej: "\<And>m c. \<not> accepts st level p \<Longrightarrow> Log st p level m c = Some (Inr st)"
    by (subst all, subst chain_hd_tl) simp
  show ?thesis
    using Log_step [OF assms(1,2,4,5), of message console] assms(3) all rej by simp
qed

theorem Log_parent_filters_witness:
  "Log strict_tree 1 Debug ''m'' False = Log strict_tree 0 Debug ''[CHLD] m'' False \<and>
   Log strict_tree 0 Debug ''[CHLD] m'' False = Some (Inr strict_tree) \<and>
   Log strict_tree 1 Error ''m'' False = Some (EmitLog strict_tree 0 Error ''[CHLD] m'' False)"
  using Log_parent_filters [of strict_tree 1 0 Debug "''m''" False]
    Log_parent_filters [of strict_tree 1 0 Error "''m''" False]
  by (simp add: strict_tree_def two_nodes_wf two_nodes_chain accepts_def labelled_def forced_def
      format_message_def)

section \<open>Component names\<close>

text \<open>
  Claim C8. The component names accumulate up the chain. At a hop that accepts the
  message, a non-empty name turns the text into \<^verbatim>\<open>[name]\<close>, a space and the incoming
  text before it is forwarded (or emitted, at the root), and an empty name leaves the
  text as it is. When every hop accepts, the text that reaches the root's \<^verbatim>\<open>EmitLog\<close>
  is the message with the names of the chain prefixed in turn, the root's outermost. A
  root without a name and a child named LTST logging \<^verbatim>\<open>hello\<close> hand \<^verbatim>\<open>EmitLog\<close> the text
  \<^verbatim>\<open>[LTST] hello\<close>, before the timestamp and the level are put in front.
\<close>

theorem Log_prefix_cumulative:
  assumes "wf_heap st" "this < allocated st"
    "log_facility (heap st (root_of st this)) \<noteq> None_Facility"
    "list_all (accepts st level) (chain st this)"
  shows "Log st this level message console =
           (case parent_logger (heap st this) of
              Some p \<Rightarrow>
                Log st p level
                  (if component_name (heap st this) = [] then message
                   else ''['' @ component_name (heap st this) @ ''] '' @ message)
                  (console \<or> output_to_console (heap st this))
            | None \<Rightarrow>
                Some (EmitLog st this level
                  (if component_name (heap st this) = [] then message
                   else ''['' @ component_name (heap st this) @ ''] '' @ message)
                  (console \<or> output_to_console (heap st this)))) \<and>
         Log st this level message console =
           Some (EmitLog st (root_of st this) level
                  (foldl (\<lambda>m n. if component_name (heap st n) = [] then m
                                 else ''['' @ component_name (heap st n) @ ''] '' @ m)
                     message (chain st this))
                  (console \<or> forced st (chain st this)))"
proof -
  have "accepts st level this"
    using assms(4) by (subst (asm) chain_hd_tl) simp
  then have step: "Log st this level message console =
           (case parent_logger (heap st this) of
              Some p \<Rightarrow>
                Log st p level
                  (if component_name (heap st this) = [] then message
                   else ''['' @ component_name (heap st this) @ ''] '' @ message)
                  (console \<or> output_to_console (heap st this))
            | None \<Rightarrow>
                Some (EmitLog st this level
                  (if component_name (heap st this) = [] then message
                   else ''['' @ component_name (heap st this) @ ''] '' @ message)
                  (console \<or> output_to_console (heap st this))))"
    using Log_step [OF assms(1-3), of level message console]
    unfolding format_message_eq by simp
  have cum: "Log st this level message console =
           Some (EmitLog st (root_of st this) level
                  (foldl (\<lambda>m n. if component_name (heap st n) = [] then m
                                 else ''['' @ component_name (heap st n) @ ''] '' @ m)
                     message (chain st this))
                  (console \<or> forced st (chain st this)))"
    using Log_chain [OF assms(1-3), of level message console] assms(4)
    by (simp add: labelled_def)
  from step cum show ?thesis by (rule conjI)
qed

theorem Log_prefix_cumulative_witness:
  "Log ltst_tree 1 Info ''hello'' False = Log ltst_tree 0 Info ''[LTST] hello'' False \<and>
   Log ltst_tree 1 Info ''hello'' False = Some (EmitLog ltst_tree 0 Info ''[LTST] hello'' False) \<and>
   EmitLog ltst_tree 0 Info ''[LTST] hello'' False =
     Inr (ltst_tree\<lparr>clog := [''2023-08-24T14:38:05.824097 [INFO] [LTST] hello'']\<rparr>) \<and>
   Log foo_bar_tree 2 Info ''Message from object Bar'' False =
     Some (EmitLog foo_bar_tree 0 Info ''[Foo] [Bar] Message from object Bar'' False)"
proof -
  have "to_string 824097 = ''824097''"
    by (simp add: to_string.simps digit_char_def)
  then have emit: "EmitLog ltst_tree 0 Info ''[LTST] hello'' False =
     Inr (ltst_tree\<lparr>clog := [''2023-08-24T14:38:05.824097 [INFO] [LTST] hello'']\<rparr>)"
    by (simp add: EmitLog_def Let_def write_clog_def GetTimestamp_def setw0_def ltst_tree_def
        two_nodes_def mk_State_def mk_Logger_def)
  have pre: "wf_heap ltst_tree" "1 < allocated ltst_tree"
    "log_facility (heap ltst_tree (root_of ltst_tree 1)) \<noteq> None_Facility"
    "list_all (accepts ltst_tree Info) (chain ltst_tree 1)"
    by (simp_all add: ltst_tree_def two_nodes_wf two_nodes_chain accepts_def)
  note ltst = Log_prefix_cumulative [OF pre, of "''hello''" False]
  have hop: "Log ltst_tree 1 Info ''hello'' False = Log ltst_tree 0 Info ''[LTST] hello'' False"
    using ltst [THEN conjunct1] by (simp add: ltst_tree_def)
  have cum: "Log ltst_tree 1 Info ''hello'' False =
      Some (EmitLog ltst_tree 0 Info ''[LTST] hello'' False)"
    using ltst [THEN conjunct2] by (simp add: ltst_tree_def two_nodes_chain forced_def)
  have pre3: "wf_heap foo_bar_tree" "2 < allocated foo_bar_tree"
    "log_facility (heap foo_bar_tree (root_of foo_bar_tree 2)) \<noteq> None_Facility"
    "list_all (accepts foo_bar_tree Info) (chain foo_bar_tree 2)"
    by (simp_all add: foo_bar_tree_def three_nodes_wf three_nodes_chain accepts_def
        numeral_2_eq_2)
  have foo: "Log foo_bar_tree 2 Info ''Message from object Bar'' False =
     Some (EmitLog foo_bar_tree 0 Info ''[Foo] [Bar] Message from object Bar'' False)"
    using Log_prefix_cumulative [OF pre3, of "''Message from object Bar''" False, THEN conjunct2]
    by (simp add: foo_bar_tree_def three_nodes_chain forced_def numeral_2_eq_2)
  from hop cum emit foo show ?thesis by simp
qed

section \<open>Facts about the single-root fixtures, and that \<^verbatim>\<open>Log\<close> returns\<close>

lemma mk_State_sel [simp]:
  "heap (mk_State h n) = h" "allocated (mk_State h n) = n" "clog (mk_State h n) = []"
  "cerr (mk_State h n) = []"
  by (simp_all add: mk_State_def)

lemma one_node_heap [simp]:
  "heap (one_node r) a = r" "allocated (one_node r) = 1" "clog (one_node r) = []"
  by (simp_all add: one_node_def)

lemma one_node_wf: "parent_logger r = None \<Longrightarrow> wf_heap (one_node r)"
  by (simp add: wf_heap_def)

lemma one_node_chain:
  "parent_logger r = None \<Longrightarrow> chain (one_node r) 0 = [0] \<and> root_of (one_node r) 0 = 0"
  by (simp add: chain_root root_of_root)

lemma one_node_Log:
  assumes "parent_logger r = None" "log_facility r \<noteq> None_Facility"
    "level_num level \<le> level_num (log_level r)"
  shows "Log (one_node r) 0 level message console =
     Some (EmitLog (one_node r) 0 level (format_message (component_name r) message)
             (console \<or> output_to_console r))"
proof -
  have "accepts (one_node r) level 0" using assms(3) by (simp add: accepts_def)
  then show ?thesis
    using Log_step [of "one_node r" 0 level message console] assms(1,2)
    by (simp add: one_node_wf one_node_chain)
qed

lemma timestamp_fixture:
  "GetTimestamp (mk_State h n) (mk_Logger name p f l) = ''2023-08-24T14:38:05.824097''"
proof -
  have "to_string 824097 = ''824097''"
    by (simp add: to_string.simps digit_char_def)
  then show ?thesis
    by (simp add: GetTimestamp_def setw0_def mk_State_def mk_Logger_def)
qed

lemma Log_total:
  "wf_heap st \<Longrightarrow> a < allocated st \<Longrightarrow> \<exists>r. Log st a level message console = Some r"
  by (cases "log_facility (heap st (root_of st a)) = None_Facility")
    (simp_all add: Log_None_Facility Log_chain)

lemma Log_heap:
  assumes "wf_heap st" "a < allocated st"
  shows "Log st a level message console = Some (Inr st') \<Longrightarrow>
           heap st' = heap st \<and> allocated st' = allocated st"
    and "Log st a level message console = Some (Inl (e, st')) \<Longrightarrow>
           heap st' = heap st \<and> allocated st' = allocated st"
proof -
  show "Log st a level message console = Some (Inr st') \<Longrightarrow>
           heap st' = heap st \<and> allocated st' = allocated st"
    using assms
    by (cases "log_facility (heap st (root_of st a)) = None_Facility")
      (auto simp add: Log_None_Facility Log_chain dest: EmitLog_heap split: if_splits)
  show "Log st a level message console = Some (Inl (e, st')) \<Longrightarrow>
           heap st' = heap st \<and> allocated st' = allocated st"
    using assms
    by (cases "log_facility (heap st (root_of st a)) = None_Facility")
      (auto simp add: Log_None_Facility Log_chain dest: EmitLog_heap split: if_splits)
qed

section \<open>Setting the level by name\<close>

text \<open>
  Claim C6 says that for every string outside the five names \<^verbatim>\<open>SetLogLevel\<close> sets the
  threshold to Info. The error message is logged first, and on a root whose facility
  is \<^verbatim>\<open>AndroidLog\<close> that call writes the console line and then throws (this build is not
  an Android one): the threshold stays Warning.
\<close>

theorem SetLogLevel_string_throws_counterexample:
  "map toupper ''foobar'' \<notin> set (map fst level_names) \<and>
   GetLogLevel android_root 0 = Warning \<and>
   SetLogLevel_string android_root 0 ''foobar'' =
     Some (Inl (runtime_error ''Android LogLevel only supported on Android platform'',
                android_root\<lparr>clog := [''2023-08-24T14:38:05.824097 [ERROR] '' @
                                         unknown_level_error ''foobar'']\<rparr>)) \<and>
   GetLogLevel (android_root\<lparr>clog := [''2023-08-24T14:38:05.824097 [ERROR] '' @
                                         unknown_level_error ''foobar'']\<rparr>) 0 = Warning"
proof -
  have "Log android_root 0 Error (unknown_level_error ''foobar'') True =
     Some (EmitLog android_root 0 Error (unknown_level_error ''foobar'') True)"
    unfolding android_root_def by (subst one_node_Log) (simp_all add: format_message_def)
  moreover have "EmitLog android_root 0 Error (unknown_level_error ''foobar'') True =
     Inl (runtime_error ''Android LogLevel only supported on Android platform'',
                android_root\<lparr>clog := [''2023-08-24T14:38:05.824097 [ERROR] '' @
                                         unknown_level_error ''foobar'']\<rparr>)"
    by (simp add: android_root_def EmitLog_def Let_def write_clog_def timestamp_fixture
        one_node_def)
  ultimately show ?thesis
    by (simp add: SetLogLevel_string_def Let_def toupper_def level_names_def
        unknown_level_error_def GetLogLevel_def android_root_def)
qed

text \<open>
  Claim C6, amended. The string overload of \<^verbatim>\<open>SetLogLevel\<close> compares the upper-cased
  string with the five names CRITICAL, ERROR, WARNING, INFO and DEBUG and sets the
  node's threshold to the level named, logging nothing. For every other string it
  calls \<^verbatim>\<open>Log\<close> once on this node, with severity Error, the console flag set and the
  text naming the string (a call that returns or throws, and that is subject to the
  facility and threshold checks of \<^verbatim>\<open>Log\<close> under the thresholds in force before); when
  that call returns, the threshold is set to Info, and when it throws, the exception
  leaves \<^verbatim>\<open>SetLogLevel\<close>.
\<close>

theorem SetLogLevel_string_levels:
  assumes "wf_heap st" "this < allocated st"
  shows "SetLogLevel_string st this name =
     (case map_of level_names (map toupper name) of
        Some level \<Rightarrow> Some (Inr (SetLogLevel st this level))
      | None \<Rightarrow>
          (case Log st this Error (unknown_level_error name) True of
             Some (Inr st1) \<Rightarrow> Some (Inr (SetLogLevel st1 this Info))
           | Some (Inl e) \<Rightarrow> Some (Inl e)
           | None \<Rightarrow> None)) \<and>
     (\<exists>r. Log st this Error (unknown_level_error name) True = Some r) \<and>
     (\<forall>level. GetLogLevel (SetLogLevel st this level) this = level)"
proof -
  have "SetLogLevel_string st this name =
     (case map_of level_names (map toupper name) of
        Some level \<Rightarrow> Some (Inr (SetLogLevel st this level))
      | None \<Rightarrow>
          (case Log st this Error (unknown_level_error name) True of
             Some (Inr st1) \<Rightarrow> Some (Inr (SetLogLevel st1 this Info))
           | Some (Inl e) \<Rightarrow> Some (Inl e)
           | None \<Rightarrow> None))"
    by (simp add: SetLogLevel_string_def Let_def level_names_def unknown_level_error_def
        split: option.splits sum.splits)
  moreover have "\<exists>r. Log st this Error (unknown_level_error name) True = Some r"
    using assms by (rule Log_total)
  moreover have "\<forall>level. GetLogLevel (SetLogLevel st this level) this = level"
    by (simp add: GetLogLevel_def SetLogLevel_def)
  ultimately show ?thesis by blast
qed

theorem SetLogLevel_string_levels_witness:
  "SetLogLevel_string console_root 0 ''Warning'' = Some (Inr (SetLogLevel console_root 0 Warning)) \<and>
   SetLogLevel_string console_root 0 ''cRiTiCaL'' = Some (Inr (SetLogLevel console_root 0 Critical)) \<and>
   SetLogLevel_string console_root 0 ''foobar'' =
     Some (Inr (SetLogLevel (console_root\<lparr>clog := [''2023-08-24T14:38:05.824097 [ERROR] '' @
                                         unknown_level_error ''foobar'']\<rparr>) 0 Info))"
proof -
  have wf: "wf_heap console_root" "0 < allocated console_root"
    by (simp_all add: console_root_def one_node_wf)
  note th = SetLogLevel_string_levels [OF wf(1,2), THEN conjunct1]
  have "Log console_root 0 Error (unknown_level_error ''foobar'') True =
     Some (EmitLog console_root 0 Error (unknown_level_error ''foobar'') True)"
    unfolding console_root_def by (subst one_node_Log) (simp_all add: format_message_def)
  moreover have "EmitLog console_root 0 Error (unknown_level_error ''foobar'') True =
     Inr (console_root\<lparr>clog := [''2023-08-24T14:38:05.824097 [ERROR] '' @
                                         unknown_level_error ''foobar'']\<rparr>)"
    by (simp add: console_root_def EmitLog_def Let_def write_clog_def timestamp_fixture
        one_node_def)
  ultimately have log: "Log console_root 0 Error (unknown_level_error ''foobar'') True =
     Some (Inr (console_root\<lparr>clog := [''2023-08-24T14:38:05.824097 [ERROR] '' @
                                         unknown_level_error ''foobar'']\<rparr>))"
    by simp
  have a: "SetLogLevel_string console_root 0 ''Warning'' = Some (Inr (SetLogLevel console_root 0 Warning))"
    using th [of "''Warning''"] by (simp add: level_names_def toupper_def)
  have b: "SetLogLevel_string console_root 0 ''cRiTiCaL'' = Some (Inr (SetLogLevel console_root 0 Critical))"
    using th [of "''cRiTiCaL''"] by (simp add: level_names_def toupper_def)
  have c: "SetLogLevel_string console_root 0 ''foobar'' =
     Some (Inr (SetLogLevel (console_root\<lparr>clog := [''2023-08-24T14:38:05.824097 [ERROR] '' @
                                         unknown_level_error ''foobar'']\<rparr>) 0 Info))"
    using th [of "''foobar''"] log by (simp add: level_names_def toupper_def)
  from a b c show ?thesis by simp
qed


text \<open>
  The error message goes through the checks of \<^verbatim>\<open>Log\<close> like any other, under the
  threshold still in force: on a console root at threshold Critical the unknown name
  sets the threshold to Info and nothing is written anywhere.
\<close>

lemma SetLogLevel_string_filtered:
  "SetLogLevel_string critical_root 0 ''foobar'' = Some (Inr (SetLogLevel critical_root 0 Info)) \<and>
   clog (SetLogLevel critical_root 0 Info) = [] \<and> cerr (SetLogLevel critical_root 0 Info) = [] \<and>
   syslog_msgs (SetLogLevel critical_root 0 Info) = []"
proof -
  have "Log critical_root 0 Error (unknown_level_error ''foobar'') True = Some (Inr critical_root)"
    using Log_chain [of critical_root 0 Error "unknown_level_error ''foobar''" True]
    by (simp add: critical_root_def one_node_wf one_node_chain accepts_def)
  then show ?thesis
    by (simp add: SetLogLevel_string_def Let_def toupper_def unknown_level_error_def
        SetLogLevel_def critical_root_def one_node_def mk_State_def)
qed

section \<open>Setting the facility\<close>

text \<open>
  Claim C5. \<^verbatim>\<open>SetLogFacility\<close> changes nothing on a node with a parent, and nothing on a
  root whose facility is the one requested. Otherwise, on a root: a previous \<^verbatim>\<open>Syslog\<close>
  facility is deregistered (\<^verbatim>\<open>closelog\<close>) and a previous log file is closed; when the
  new facility is \<^verbatim>\<open>File\<close> and the path cannot be opened for appending, one error line
  naming the path goes to the console through \<^verbatim>\<open>std::cerr\<close> and the facility stored is
  \<^verbatim>\<open>None\<close>; when the path can be opened the stream is attached to it and \<^verbatim>\<open>File\<close> is
  stored; any other facility is stored as requested.
\<close>

theorem SetLogFacility_root_only:
  "(parent_logger (heap st this) \<noteq> None \<longrightarrow> SetLogFacility st this facility filename = st) \<and>
   (log_facility (heap st this) = facility \<longrightarrow> SetLogFacility st this facility filename = st) \<and>
   (parent_logger (heap st this) = None \<and> log_facility (heap st this) \<noteq> facility \<longrightarrow>
      (log_facility (heap st this) = Syslog \<longrightarrow>
         syslog_ident (SetLogFacility st this facility filename) = None) \<and>
      (log_facility (heap st this) = File \<longrightarrow>
         \<not> is_open (log_file (heap (SetLogFacility st this facility filename) this))) \<and>
      (facility = File \<and> file_inv (heap st this) \<and> \<not> can_open st filename \<longrightarrow>
         cerr (SetLogFacility st this facility filename) = cerr st @ [open_failed_error filename] \<and>
         clog (SetLogFacility st this facility filename) = clog st \<and>
         log_facility (heap (SetLogFacility st this facility filename) this) = None_Facility) \<and>
      (facility = File \<and> file_inv (heap st this) \<and> can_open st filename \<longrightarrow>
         cerr (SetLogFacility st this facility filename) = cerr st \<and>
         log_file (heap (SetLogFacility st this facility filename) this) =
           \<lparr>is_open = True, fname = filename, failbit = False\<rparr> \<and>
         log_facility (heap (SetLogFacility st this facility filename) this) = File) \<and>
      (facility \<noteq> File \<longrightarrow>
         cerr (SetLogFacility st this facility filename) = cerr st \<and>
         log_facility (heap (SetLogFacility st this facility filename) this) = facility))"
  by (auto simp add: SetLogFacility_def Let_def closelog_def openlog_def ofstream_open_def
      ofstream_close_def file_inv_def open_failed_error_def)

lemma SetLogFacility_file_inv:
  "file_inv (heap st this) \<Longrightarrow> file_inv (heap (SetLogFacility st this facility filename) this)"
  by (auto simp add: SetLogFacility_def Let_def file_inv_def ofstream_open_def ofstream_close_def)

theorem SetLogFacility_root_only_witness:
  "SetLogFacility ltst_tree 1 Syslog [] = ltst_tree \<and>
   SetLogFacility console_root 0 Console [] = console_root \<and>
   syslog_ident syslog_root = Some ''proc'' \<and>
   syslog_ident (SetLogFacility syslog_root 0 Console []) = None \<and>
   is_open (log_file (heap file_root 0)) \<and>
   \<not> is_open (log_file (heap (SetLogFacility file_root 0 None_Facility []) 0)) \<and>
   cerr (SetLogFacility console_root 0 File ''/nonexistent/log'') =
     [''ERROR: Logger unable to open log file for writing: /nonexistent/log''] \<and>
   log_facility (heap (SetLogFacility console_root 0 File ''/nonexistent/log'') 0) = None_Facility"
proof -
  have a: "SetLogFacility ltst_tree 1 Syslog [] = ltst_tree"
    using SetLogFacility_root_only [of ltst_tree 1 Syslog "[]"] by (simp add: ltst_tree_def)
  have b: "SetLogFacility console_root 0 Console [] = console_root"
    using SetLogFacility_root_only [of console_root 0 Console "[]"] by (simp add: console_root_def)
  have c: "syslog_ident (SetLogFacility syslog_root 0 Console []) = None"
    using SetLogFacility_root_only [of syslog_root 0 Console "[]"] by (simp add: syslog_root_def)
  have f: "log_facility (heap file_root 0) = File" "parent_logger (heap file_root 0) = None"
    "is_open (log_file (heap file_root 0))"
    by (simp_all add: file_root_def SetLogFacility_def Let_def ofstream_open_def mk_Logger_def
        new_ofstream_def one_node_def mk_State_def)
  have d: "\<not> is_open (log_file (heap (SetLogFacility file_root 0 None_Facility []) 0))"
    using SetLogFacility_root_only [of file_root 0 None_Facility "[]"] f by simp
  have e: "cerr (SetLogFacility console_root 0 File ''/nonexistent/log'') =
     [''ERROR: Logger unable to open log file for writing: /nonexistent/log''] \<and>
   log_facility (heap (SetLogFacility console_root 0 File ''/nonexistent/log'') 0) = None_Facility"
    using SetLogFacility_root_only [of console_root 0 File "''/nonexistent/log''"]
    by (simp add: console_root_def file_inv_def open_failed_error_def one_node_def mk_State_def
        mk_Logger_def new_ofstream_def)
  from a b c d e f show ?thesis by (simp add: syslog_root_def)
qed

section \<open>Construction\<close>

text \<open>
  Claim C10 says that a new child copies its parent's colorization flag. The constructor
  takes the flag from \<^verbatim>\<open>parent_logger->IsColorized()\<close>, which answers with the flag of
  the root. After a root on a color terminal has had a child and then switched color
  off, a new logger under that child gets the root's flag (off), while the flag stored
  in its parent is still on.
\<close>

theorem child_colorize_counterexample:
  "(case Logger_root color_State False of
      None \<Rightarrow> None
    | Some (root, st1) \<Rightarrow>
        (case Logger_child st1 ''CHLD'' root False of
           None \<Rightarrow> None
         | Some (child, st2) \<Rightarrow>
             (case Logger_child (Colorize st2 root False) ''GRND'' child False of
                None \<Rightarrow> None
              | Some (grandchild, st3) \<Rightarrow>
                  Some (parent_logger (heap st3 grandchild) = Some child,
                        colorize (heap st3 child), colorize (heap st3 grandchild)))))
   = Some (True, True, False)"
  by (simp add: Logger_root_def Logger_child_def Logger_init_def Let_def color_State_def
      empty_State_def mk_State_def IsColorPossible_def IsColorized.simps Colorize_def
      GetLogLevel_def)

lemma Logger_init_wf:
  assumes "wf_heap st" "case parent of None \<Rightarrow> True | Some p \<Rightarrow> p < allocated st"
    "Logger_init st pn cn parent otc = Some (this, st')"
  shows "wf_heap st'"
  using assms
  by (auto simp add: Logger_init_def Let_def wf_heap_def less_Suc_eq split: option.splits)

text \<open>
  Claim C10, amended. A root constructed without a parent has the facility \<^verbatim>\<open>Console\<close>,
  the threshold Info, six time digits and the time modulus 1,000,000 (microseconds), so
  \<^verbatim>\<open>IsDebugging\<close> is false for it; its color flag is what the terminal allows. A child
  constructed with a parent copies the parent's threshold as it is at that time, and
  takes as its color flag what the parent's \<^verbatim>\<open>IsColorized\<close> answers, which is the flag
  of the root of the parent's tree. Both are copies: setting the parent's threshold or
  the root's color flag afterwards does not change them.
\<close>

theorem Logger_init_defaults:
  "(\<exists>st'. Logger_init st process component None otc = Some (allocated st, st') \<and>
      allocated st' = Suc (allocated st) \<and>
      (\<forall>a. a \<noteq> allocated st \<longrightarrow> heap st' a = heap st a) \<and>
      parent_logger (heap st' (allocated st)) = None \<and>
      log_facility (heap st' (allocated st)) = Console \<and>
      GetLogFacility st' (allocated st) = Some Console \<and>
      GetLogLevel st' (allocated st) = Info \<and>
      time_digits (heap st' (allocated st)) = 6 \<and>
      time_modulo (heap st' (allocated st)) = 1000000 \<and>
      \<not> IsDebugging st' (allocated st) \<and>
      colorize (heap st' (allocated st)) = color_possible st) \<and>
   (wf_heap st \<and> p < allocated st \<longrightarrow>
     (\<exists>st'. Logger_init st process component (Some p) otc = Some (allocated st, st') \<and>
        allocated st' = Suc (allocated st) \<and>
        (\<forall>a. a \<noteq> allocated st \<longrightarrow> heap st' a = heap st a) \<and>
        wf_heap st' \<and>
        parent_logger (heap st' (allocated st)) = Some p \<and>
        GetLogLevel st' (allocated st) = GetLogLevel st p \<and>
        IsColorized st p = Some (colorize (heap st (root_of st p))) \<and>
        colorize (heap st' (allocated st)) = colorize (heap st (root_of st p)) \<and>
        (\<forall>level. GetLogLevel (SetLogLevel st' p level) (allocated st) = GetLogLevel st p) \<and>
        (\<forall>c. colorize (heap (Colorize st' (root_of st p) c) (allocated st)) =
              colorize (heap st (root_of st p)))))"
proof (intro conjI impI)
  show "\<exists>st'. Logger_init st process component None otc = Some (allocated st, st') \<and>
      allocated st' = Suc (allocated st) \<and>
      (\<forall>a. a \<noteq> allocated st \<longrightarrow> heap st' a = heap st a) \<and>
      parent_logger (heap st' (allocated st)) = None \<and>
      log_facility (heap st' (allocated st)) = Console \<and>
      GetLogFacility st' (allocated st) = Some Console \<and>
      GetLogLevel st' (allocated st) = Info \<and>
      time_digits (heap st' (allocated st)) = 6 \<and>
      time_modulo (heap st' (allocated st)) = 1000000 \<and>
      \<not> IsDebugging st' (allocated st) \<and>
      colorize (heap st' (allocated st)) = color_possible st"
    by (simp add: Logger_init_def Let_def IsColorPossible_def GetLogLevel_def IsDebugging_def
        GetLogFacility.simps)
next
  assume a: "wf_heap st \<and> p < allocated st"
  then have col: "IsColorized st p = Some (colorize (heap st (root_of st p)))"
    by (simp add: IsColorized_root_of)
  have le: "root_of st p \<le> p" using a by (simp add: root_of_is_root)
  obtain st' where init: "Logger_init st process component (Some p) otc = Some (allocated st, st')"
    using col by (simp add: Logger_init_def Let_def)
  have wf': "wf_heap st'" using Logger_init_wf [OF _ _ init] a by simp
  have rest: "allocated st' = Suc (allocated st) \<and>
        (\<forall>a. a \<noteq> allocated st \<longrightarrow> heap st' a = heap st a) \<and>
        parent_logger (heap st' (allocated st)) = Some p \<and>
        GetLogLevel st' (allocated st) = GetLogLevel st p \<and>
        colorize (heap st' (allocated st)) = colorize (heap st (root_of st p)) \<and>
        (\<forall>level. GetLogLevel (SetLogLevel st' p level) (allocated st) = GetLogLevel st p) \<and>
        (\<forall>c. colorize (heap (Colorize st' (root_of st p) c) (allocated st)) =
              colorize (heap st (root_of st p)))"
    using init col a le
    by (auto simp add: Logger_init_def Let_def GetLogLevel_def SetLogLevel_def Colorize_def)
  from init wf' rest col
  show "\<exists>st'. Logger_init st process component (Some p) otc = Some (allocated st, st') \<and>
        allocated st' = Suc (allocated st) \<and>
        (\<forall>a. a \<noteq> allocated st \<longrightarrow> heap st' a = heap st a) \<and>
        wf_heap st' \<and>
        parent_logger (heap st' (allocated st)) = Some p \<and>
        GetLogLevel st' (allocated st) = GetLogLevel st p \<and>
        IsColorized st p = Some (colorize (heap st (root_of st p))) \<and>
        colorize (heap st' (allocated st)) = colorize (heap st (root_of st p)) \<and>
        (\<forall>level. GetLogLevel (SetLogLevel st' p level) (allocated st) = GetLogLevel st p) \<and>
        (\<forall>c. colorize (heap (Colorize st' (root_of st p) c) (allocated st)) =
              colorize (heap st (root_of st p)))"
    by blast
qed

theorem Logger_init_defaults_witness:
  "(\<exists>st'. Logger_init color_State ''proc'' [] None False = Some (0, st') \<and>
      GetLogFacility st' 0 = Some Console \<and> GetLogLevel st' 0 = Info \<and>
      time_digits (heap st' 0) = 6 \<and> time_modulo (heap st' 0) = 1000000 \<and>
      \<not> IsDebugging st' 0 \<and> colorize (heap st' 0)) \<and>
   (\<exists>st'. Logger_init syslog_tree [] ''GRND'' (Some 1) False = Some (2, st') \<and>
      parent_logger (heap st' 2) = Some 1 \<and> GetLogLevel st' 2 = Debug \<and>
      GetLogLevel (SetLogLevel st' 1 Critical) 2 = Debug \<and> \<not> colorize (heap st' 2))"
proof -
  have wf: "wf_heap syslog_tree \<and> 1 < allocated syslog_tree"
    by (simp add: syslog_tree_def two_nodes_wf)
  have c0: "colorize (heap syslog_tree (root_of syslog_tree 1)) = False"
    by (simp add: syslog_tree_def two_nodes_chain)
  have lv: "GetLogLevel syslog_tree 1 = Debug"
    by (simp add: syslog_tree_def GetLogLevel_def)
  have root: "\<exists>st'. Logger_init color_State ''proc'' [] None False = Some (0, st') \<and>
      GetLogFacility st' 0 = Some Console \<and> GetLogLevel st' 0 = Info \<and>
      time_digits (heap st' 0) = 6 \<and> time_modulo (heap st' 0) = 1000000 \<and>
      \<not> IsDebugging st' 0 \<and> colorize (heap st' 0)"
    using Logger_init_defaults [of color_State "''proc''" "[]" False, THEN conjunct1]
    by (auto simp add: color_State_def empty_State_def)
  have child: "\<exists>st'. Logger_init syslog_tree [] ''GRND'' (Some 1) False = Some (2, st') \<and>
      parent_logger (heap st' 2) = Some 1 \<and> GetLogLevel st' 2 = Debug \<and>
      GetLogLevel (SetLogLevel st' 1 Critical) 2 = Debug \<and> \<not> colorize (heap st' 2)"
    using Logger_init_defaults [where st = syslog_tree and p = 1 and process = "[]"
          and component = "''GRND''" and otc = False, THEN conjunct2, rule_format, OF wf]
    unfolding c0 lv by (auto simp add: syslog_tree_def)
  from root child show ?thesis by (rule conjI)
qed


section \<open>Flushing a buffer\<close>

lemma get_set_buf [simp]: "get_buf (set_buf l s b) s = b"
  by (cases s) simp_all

lemma set_set_buf [simp]: "set_buf (set_buf l s b) s b' = set_buf l s b'"
  by (cases s) simp_all

lemma set_buf_fields [simp]:
  "parent_logger (set_buf l s b) = parent_logger l"
  "log_facility (set_buf l s b) = log_facility l"
  "log_level (set_buf l s b) = log_level l"
  "component_name (set_buf l s b) = component_name l"
  "output_to_console (set_buf l s b) = output_to_console l"
  "colorize (set_buf l s b) = colorize l"
  "log_file (set_buf l s b) = log_file l"
  "time_digits (set_buf l s b) = time_digits l"
  "time_modulo (set_buf l s b) = time_modulo l"
  by (cases s; simp)+

lemma buf_of_buf_update [simp]: "buf_of (buf_update st this s f) this s = f (buf_of st this s)"
  by (simp add: buf_of_def buf_update_def)

lemma buf_update_buf_update [simp]:
  "buf_update (buf_update st this s f) this s g = buf_update st this s (g \<circ> f)"
  by (simp add: buf_update_def)

lemma buf_update_fields [simp]:
  "parent_logger (heap (buf_update st this s f) a) = parent_logger (heap st a)"
  "log_facility (heap (buf_update st this s f) a) = log_facility (heap st a)"
  "log_level (heap (buf_update st this s f) a) = log_level (heap st a)"
  "component_name (heap (buf_update st this s f) a) = component_name (heap st a)"
  "output_to_console (heap (buf_update st this s f) a) = output_to_console (heap st a)"
  "colorize (heap (buf_update st this s f) a) = colorize (heap st a)"
  "log_file (heap (buf_update st this s f) a) = log_file (heap st a)"
  "time_digits (heap (buf_update st this s f) a) = time_digits (heap st a)"
  "time_modulo (heap (buf_update st this s f) a) = time_modulo (heap st a)"
  "allocated (buf_update st this s f) = allocated st"
  "clog (buf_update st this s f) = clog st"
  "local_time (buf_update st this s f) = local_time st"
  "now_us (buf_update st this s f) = now_us st"
  by (simp_all add: buf_update_def)

lemma wf_heap_buf_update [simp]: "wf_heap (buf_update st this s f) = wf_heap st"
  by (simp add: wf_heap_def)

lemma root_Log:
  assumes "wf_heap st" "this < allocated st" "parent_logger (heap st this) = None"
    "log_facility (heap st this) \<noteq> None_Facility" "accepts st level this"
  shows "Log st this level message console =
     Some (EmitLog st this level (format_message (component_name (heap st this)) message)
             (console \<or> output_to_console (heap st this)))"
  using Log_step [OF assms(1,2) _ assms(5), of message console] assms(3,4)
  by (simp add: root_of_root)

lemma timestamp_microseconds:
  "local_time st = ''2023-08-24T14:38:05'' \<Longrightarrow> now_us st = 824097 \<Longrightarrow>
   time_digits l = 6 \<Longrightarrow> time_modulo l = 1000000 \<Longrightarrow>
   GetTimestamp st l = ''2023-08-24T14:38:05.824097''"
proof -
  have "to_string 824097 = ''824097''"
    by (simp add: to_string.simps digit_char_def)
  then show "local_time st = ''2023-08-24T14:38:05'' \<Longrightarrow> now_us st = 824097 \<Longrightarrow>
   time_digits l = 6 \<Longrightarrow> time_modulo l = 1000000 \<Longrightarrow>
   GetTimestamp st l = ''2023-08-24T14:38:05.824097''"
    by (simp add: GetTimestamp_def setw0_def)
qed

lemma flushed_eq:
  "(\<lambda>b. b\<lparr>str := [], busy := False, signal := Suc (signal b)\<rparr>) = flushed"
  by (simp add: fun_eq_iff flushed_def)

lemma thread_sync_owner:
  "busy (buf_of st this s) \<Longrightarrow> owning_thread (buf_of st this s) = Some me \<Longrightarrow>
   thread_sync st this s me after_wait = Some (Inr st)"
  by (simp add: thread_sync_def wait_pred_def Let_def)

lemma thread_sync_idle:
  "\<not> busy (buf_of st this s) \<Longrightarrow>
   thread_sync st this s me after_wait =
     Some (Inr (buf_update st this s (\<lambda>b. b\<lparr>busy := True, owning_thread := Some me\<rparr>)))"
  by (simp add: thread_sync_def wait_pred_def Let_def)

lemma Log_buf:
  assumes "wf_heap st" "a < allocated st" "Log st a level message console = Some (Inr st')"
  shows "buf_of st' this s = buf_of st this s"
  using Log_heap(1) [OF assms] by (simp add: buf_of_def)

text \<open>
  Claim C4 says that every flush clears the text, marks the buffer not busy and
  notifies a waiting thread. Under a root whose facility is \<^verbatim>\<open>AndroidLog\<close> (on this
  build, which is not an Android one) the \<^verbatim>\<open>Log\<close> call inside \<^verbatim>\<open>sync\<close> throws: the thread
  that has written \<^verbatim>\<open>x\<close> to the info buffer and flushes it leaves \<^verbatim>\<open>sync\<close> by the
  exception, with the buffer still busy and still holding \<^verbatim>\<open>x\<close>.
\<close>

theorem sync_throw_counterexample:
  "xsputn android_debug_root 0 Info_stream 7 android_debug_root ''x'' =
     Some (Inr (owned android_debug_root 0 Info_stream 7 ''x'')) \<and>
   sync (owned android_debug_root 0 Info_stream 7 ''x'') 0 Info_stream 7
        (owned android_debug_root 0 Info_stream 7 ''x'') =
     Some (Inl (runtime_error ''Android LogLevel only supported on Android platform'',
                owned android_debug_root 0 Info_stream 7 ''x'')) \<and>
   busy (buf_of (owned android_debug_root 0 Info_stream 7 ''x'') 0 Info_stream) \<and>
   str (buf_of (owned android_debug_root 0 Info_stream 7 ''x'') 0 Info_stream) = ''x''"
proof -
  let ?st = "owned android_debug_root 0 Info_stream 7 ''x''"
  have b: "buf_of ?st 0 Info_stream =
      \<lparr>buf_level = Info, buf_console = False, busy = True, owning_thread = Some 7,
       str = ''x'', signal = 0\<rparr>"
    by (simp add: owned_def android_debug_root_def buf_of_def buf_update_def mk_Logger_def
        new_LoggingBuf_def)
  have x: "xsputn android_debug_root 0 Info_stream 7 android_debug_root ''x'' = Some (Inr ?st)"
    by (simp add: xsputn_def thread_sync_idle owned_def android_debug_root_def buf_of_def
        buf_update_def one_node_def mk_State_def mk_Logger_def new_LoggingBuf_def comp_def)
  have "Log ?st 0 Info ''x'' False = Some (EmitLog ?st 0 Info ''x'' False)"
    by (subst root_Log)
      (simp_all add: owned_def android_debug_root_def one_node_wf accepts_def
        format_message_def)
  moreover have "EmitLog ?st 0 Info ''x'' False =
      Inl (runtime_error ''Android LogLevel only supported on Android platform'', ?st)"
    by (simp add: EmitLog_def Let_def owned_def android_debug_root_def)
  ultimately have "sync ?st 0 Info_stream 7 ?st =
     Some (Inl (runtime_error ''Android LogLevel only supported on Android platform'', ?st))"
    using b by (simp add: sync_def thread_sync_owner)
  with x b show ?thesis by simp
qed

text \<open>
  Claim C4, amended. When the thread that owns a buffer flushes it, \<^verbatim>\<open>sync\<close> hands the
  whole accumulated text to \<^verbatim>\<open>Log\<close> of the buffer's node exactly once, with the buffer's
  severity and console flag, and that call returns or throws. When it returns, \<^verbatim>\<open>sync\<close>
  then empties the text, marks the buffer not busy and calls \<^verbatim>\<open>notify_one\<close> once; the
  severity and the console flag of the buffer stay as they are. When \<^verbatim>\<open>Log\<close> throws,
  the exception leaves \<^verbatim>\<open>sync\<close>.
\<close>

theorem sync_by_owner:
  assumes "wf_heap st" "this < allocated st"
    "busy (buf_of st this s)" "owning_thread (buf_of st this s) = Some me"
  shows "\<exists>r. Log st this (buf_level (buf_of st this s)) (str (buf_of st this s))
               (buf_console (buf_of st this s)) = Some r \<and>
           (case r of
              Inr st1 \<Rightarrow>
                sync st this s me after_wait = Some (Inr (buf_update st1 this s flushed)) \<and>
                buf_of (buf_update st1 this s flushed) this s =
                  (buf_of st this s)\<lparr>str := [], busy := False,
                                      signal := Suc (signal (buf_of st this s))\<rparr>
            | Inl e \<Rightarrow> sync st this s me after_wait = Some (Inl e))"
proof -
  obtain r where r: "Log st this (buf_level (buf_of st this s)) (str (buf_of st this s))
               (buf_console (buf_of st this s)) = Some r"
    using Log_total [OF assms(1,2)] by blast
  show ?thesis
  proof (cases r)
    case (Inl e)
    with r assms(3,4) show ?thesis by (simp add: sync_def thread_sync_owner)
  next
    case (Inr st1)
    with r have b: "buf_of st1 this s = buf_of st this s"
      using Log_buf [OF assms(1,2)] by simp
    have "sync st this s me after_wait = Some (Inr (buf_update st1 this s flushed))"
      using r Inr assms(3,4)
      by (simp add: sync_def thread_sync_owner Let_def comp_def flushed_eq)
    with r Inr b show ?thesis by (simp add: flushed_def)
  qed
qed

theorem sync_by_owner_witness:
  "sync console_owned 0 Warning_stream 7 empty_State =
     Some (Inr (buf_update
       (console_owned\<lparr>clog := [''2023-08-24T14:38:05.824097 [WARNING] low disk'']\<rparr>)
       0 Warning_stream flushed)) \<and>
   buf_of (buf_update
       (console_owned\<lparr>clog := [''2023-08-24T14:38:05.824097 [WARNING] low disk'']\<rparr>)
       0 Warning_stream flushed) 0 Warning_stream =
     \<lparr>buf_level = Warning, buf_console = False, busy = False, owning_thread = Some 7,
      str = [], signal = 1\<rparr>"
proof -
  have b: "buf_of console_owned 0 Warning_stream =
      \<lparr>buf_level = Warning, buf_console = False, busy = True, owning_thread = Some 7,
       str = ''low disk'', signal = 0\<rparr>"
    by (simp add: console_owned_def owned_def console_root_def mk_Logger_def
        new_LoggingBuf_def buf_of_def buf_update_def)
  have pre: "wf_heap console_owned" "0 < allocated console_owned"
    "busy (buf_of console_owned 0 Warning_stream)"
    "owning_thread (buf_of console_owned 0 Warning_stream) = Some 7"
    unfolding b by (simp_all add: console_owned_def owned_def console_root_def one_node_wf)
  have "Log console_owned 0 Warning ''low disk'' False =
      Some (EmitLog console_owned 0 Warning ''low disk'' False)"
    by (subst root_Log)
      (simp_all add: console_owned_def owned_def console_root_def one_node_wf accepts_def
        format_message_def)
  moreover have "EmitLog console_owned 0 Warning ''low disk'' False =
      Inr (console_owned\<lparr>clog := [''2023-08-24T14:38:05.824097 [WARNING] low disk'']\<rparr>)"
    by (simp add: EmitLog_def Let_def write_clog_def timestamp_microseconds console_owned_def
        owned_def console_root_def one_node_def mk_State_def mk_Logger_def)
  ultimately have log: "Log console_owned 0 Warning ''low disk'' False =
      Some (Inr (console_owned\<lparr>clog := [''2023-08-24T14:38:05.824097 [WARNING] low disk'']\<rparr>))"
    by simp
  show ?thesis
    using sync_by_owner [OF pre, of empty_State] log unfolding b by auto
qed


section \<open>The wait of \<^verbatim>\<open>thread_sync\<close> that times out\<close>

text \<open>
  A thread that finds the buffer owned by another thread blocks. When the wait ends with
  the buffer still owned by another thread, \<^verbatim>\<open>thread_sync\<close> logs the error about the
  missing flush through the node and, when that call returns, makes the caller the
  owner of the buffer.
\<close>

lemma thread_sync_timeout:
  assumes "busy (buf_of st this s)" "owning_thread (buf_of st this s) \<noteq> Some me"
    "busy (buf_of after_wait this s)" "owning_thread (buf_of after_wait this s) \<noteq> Some me"
    "wf_heap after_wait" "this < allocated after_wait"
  shows "\<exists>r. Log after_wait this Error ''Somebody forgot to call std::flush!?'' False = Some r \<and>
           (case r of
              Inr st1 \<Rightarrow>
                thread_sync st this s me after_wait =
                  Some (Inr (buf_update st1 this s
                               (\<lambda>b. b\<lparr>busy := True, owning_thread := Some me\<rparr>)))
            | Inl e \<Rightarrow> thread_sync st this s me after_wait = Some (Inl e))"
proof -
  obtain r where r: "Log after_wait this Error ''Somebody forgot to call std::flush!?'' False
      = Some r"
    using Log_total [OF assms(5,6)] by blast
  show ?thesis
  proof (cases r)
    case (Inl e)
    with r assms(1-4) show ?thesis by (simp add: thread_sync_def wait_pred_def Let_def)
  next
    case (Inr st1)
    with r assms(1-4) show ?thesis
      by (simp add: thread_sync_def wait_pred_def Let_def comp_def)
  qed
qed

section \<open>The fixtures as the constructors and setters build them\<close>

text \<open>The store \<open>ltst_tree\<close> is what the construction of a root and of its child named
  LTST gives, and the two objects of \<open>strict_tree\<close> are those of a root and a child
  whose thresholds have been set to Warning and Debug.\<close>

lemma ltst_tree_constructed:
  "\<exists>st1. Logger_root empty_State False = Some (0, st1) \<and>
         Logger_child st1 ''LTST'' 0 False = Some (1, ltst_tree)"
  by (simp add: Logger_root_def Logger_child_def Logger_init_def Let_def empty_State_def
      mk_State_def IsColorPossible_def IsColorized.simps GetLogLevel_def ltst_tree_def
      two_nodes_def mk_Logger_def fun_eq_iff)

lemma strict_tree_configured:
  "\<exists>st1 st2. Logger_root empty_State False = Some (0, st1) \<and>
         Logger_child st1 ''CHLD'' 0 False = Some (1, st2) \<and>
         allocated (SetLogLevel (SetLogLevel st2 1 Debug) 0 Warning) = allocated strict_tree \<and>
         (\<forall>a < 2. heap (SetLogLevel (SetLogLevel st2 1 Debug) 0 Warning) a = heap strict_tree a)"
  by (simp add: Logger_root_def Logger_child_def Logger_init_def Let_def empty_State_def
      mk_State_def IsColorPossible_def IsColorized.simps GetLogLevel_def strict_tree_def
      two_nodes_def mk_Logger_def SetLogLevel_def less_Suc_eq numeral_2_eq_2)

section \<open>The severity check of the node itself\<close>

text \<open>What \<^verbatim>\<open>EmitLog\<close> writes, sink by sink.\<close>

lemma EmitLog_written:
  "\<exists>st'. EmitLog st r level text c =
           (if log_facility (heap st r) = AndroidLog then Inl (unsupported, st') else Inr st') \<and>
         heap st' = heap st \<and> allocated st' = allocated st \<and> cerr st' = cerr st \<and>
         syslog_msgs st' =
           (if log_facility (heap st r) = Syslog
            then syslog_msgs st @ [(MapLogLevelToSysLog level, text)] else syslog_msgs st) \<and>
         files st' =
           (if log_facility (heap st r) = File \<and> is_open (log_file (heap st r)) \<and>
               \<not> failbit (log_file (heap st r))
            then (files st)(fname (log_file (heap st r)) :=
                   files st (fname (log_file (heap st r))) @ [stamped st (heap st r) level text])
            else files st) \<and>
         clog st' =
           (if log_facility (heap st r) = Console \<or> c
            then clog st @ [console_line (heap st r) level (stamped st (heap st r) level text)]
            else clog st)"
  by (cases "log_facility (heap st r)")
    (auto simp add: EmitLog_def Let_def write_clog_def write_log_file_def GetTimestamp_def
      stamped_def console_line_def unsupported_def)

text \<open>
  Claim C1 says that a message that passes the severity check is emitted at the root
  whenever the root's facility is not \<^verbatim>\<open>None\<close> and no other hop filters it. On a root
  whose facility is \<^verbatim>\<open>AndroidLog\<close> (this build is not an Android one) an Error message
  under the threshold Warning passes both checks of \<^verbatim>\<open>Log\<close>, and \<^verbatim>\<open>EmitLog\<close> then
  writes to no sink and throws: the store at the throw is the store of the call.
\<close>

theorem Log_severity_android_counterexample:
  "log_facility (heap android_root (root_of android_root 0)) = AndroidLog \<and>
   parent_logger (heap android_root 0) = None \<and>
   level_num Error \<le> level_num (log_level (heap android_root 0)) \<and>
   Log android_root 0 Error ''m'' False = Some (Inl (unsupported, android_root)) \<and>
   clog android_root = [] \<and> cerr android_root = [] \<and> syslog_msgs android_root = [] \<and>
   files android_root ''app.log'' = []"
proof -
  have "Log android_root 0 Error ''m'' False = Some (EmitLog android_root 0 Error ''m'' False)"
    unfolding android_root_def by (subst one_node_Log) (simp_all add: format_message_def)
  moreover have "EmitLog android_root 0 Error ''m'' False = Inl (unsupported, android_root)"
    by (simp add: android_root_def EmitLog_def Let_def unsupported_def)
  ultimately show ?thesis
    by (simp add: android_root_def one_node_chain one_node_def mk_State_def)
qed

text \<open>
  Claim C1, amended. Let the root's facility be other than \<^verbatim>\<open>None\<close> and let every node
  above \<open>this\<close> accept the level. A call of \<^verbatim>\<open>Log\<close> on \<open>this\<close> with level S returns in
  the state it was made in, having forwarded and written nothing, when S is above the
  node's threshold T in the order Critical = 0, ..., Debug = 4; when S is at most T it
  passes the check and ends in the root's \<^verbatim>\<open>EmitLog\<close> with the prefixed text. That
  call sends the text to syslog under a \<^verbatim>\<open>Syslog\<close> root, appends the stamped line to
  the file of a \<^verbatim>\<open>File\<close> root whose stream is open and sound, writes the stamped line
  to the console under a \<^verbatim>\<open>Console\<close> root or a set console flag, and changes nothing
  else; under an \<^verbatim>\<open>AndroidLog\<close> root it writes at most that console line and then
  throws. So under a \<^verbatim>\<open>Console\<close>, \<^verbatim>\<open>Syslog\<close> or usable \<^verbatim>\<open>File\<close> root the call returns, and
  the root's sink has one record more if S is at most T and as many as before if not.
\<close>

theorem Log_severity_check:
  assumes "wf_heap st" "this < allocated st"
    "log_facility (heap st (root_of st this)) \<noteq> None_Facility"
    "list_all (accepts st level) (tl (chain st this))"
  shows "(\<not> level_num level \<le> level_num (log_level (heap st this)) \<longrightarrow>
            Log st this level message console = Some (Inr st)) \<and>
         (level_num level \<le> level_num (log_level (heap st this)) \<longrightarrow>
            Log st this level message console =
              Some (EmitLog st (root_of st this) level (labelled st (chain st this) message)
                      (console \<or> forced st (chain st this))) \<and>
            (\<exists>st'. Log st this level message console =
                     Some (if log_facility (heap st (root_of st this)) = AndroidLog
                           then Inl (unsupported, st') else Inr st') \<and>
               heap st' = heap st \<and> cerr st' = cerr st \<and>
               syslog_msgs st' =
                 (if log_facility (heap st (root_of st this)) = Syslog
                  then syslog_msgs st @
                       [(MapLogLevelToSysLog level, labelled st (chain st this) message)]
                  else syslog_msgs st) \<and>
               files st' =
                 (if log_facility (heap st (root_of st this)) = File \<and>
                     is_open (log_file (heap st (root_of st this))) \<and>
                     \<not> failbit (log_file (heap st (root_of st this)))
                  then (files st)(fname (log_file (heap st (root_of st this))) :=
                         files st (fname (log_file (heap st (root_of st this)))) @
                         [stamped st (heap st (root_of st this)) level
                            (labelled st (chain st this) message)])
                  else files st) \<and>
               clog st' =
                 (if log_facility (heap st (root_of st this)) = Console \<or> console \<or>
                     forced st (chain st this)
                  then clog st @
                       [console_line (heap st (root_of st this)) level
                          (stamped st (heap st (root_of st this)) level
                             (labelled st (chain st this) message))]
                  else clog st))) \<and>
         (log_facility (heap st (root_of st this)) \<noteq> AndroidLog \<and>
          sink_ready (heap st (root_of st this)) \<longrightarrow>
            (\<exists>st'. Log st this level message console = Some (Inr st') \<and>
               sink_records st' (root_of st this) =
                 sink_records st (root_of st this) +
                 (if level_num level \<le> level_num (log_level (heap st this)) then 1 else 0)))"
proof -
  let ?r = "root_of st this"
  let ?text = "labelled st (chain st this) message"
  let ?c = "console \<or> forced st (chain st this)"
  have "list_all (accepts st level) (chain st this) =
        (level_num level \<le> level_num (log_level (heap st this)))"
    using assms(4) by (subst chain_hd_tl) (simp add: accepts_def)
  then have eq: "Log st this level message console =
     (if level_num level \<le> level_num (log_level (heap st this))
      then Some (EmitLog st ?r level ?text ?c) else Some (Inr st))"
    using Log_chain [OF assms(1-3), of level message console] by simp
  obtain st' where w: "EmitLog st ?r level ?text ?c =
           (if log_facility (heap st ?r) = AndroidLog then Inl (unsupported, st') else Inr st')"
      "heap st' = heap st" "cerr st' = cerr st"
      "syslog_msgs st' =
           (if log_facility (heap st ?r) = Syslog
            then syslog_msgs st @ [(MapLogLevelToSysLog level, ?text)] else syslog_msgs st)"
      "files st' =
           (if log_facility (heap st ?r) = File \<and> is_open (log_file (heap st ?r)) \<and>
               \<not> failbit (log_file (heap st ?r))
            then (files st)(fname (log_file (heap st ?r)) :=
                   files st (fname (log_file (heap st ?r))) @ [stamped st (heap st ?r) level ?text])
            else files st)"
      "clog st' =
           (if log_facility (heap st ?r) = Console \<or> ?c
            then clog st @ [console_line (heap st ?r) level (stamped st (heap st ?r) level ?text)]
            else clog st)"
    using EmitLog_written [of st ?r level ?text ?c] by blast
  have no: "\<not> level_num level \<le> level_num (log_level (heap st this)) \<longrightarrow>
            Log st this level message console = Some (Inr st)"
    using eq by simp
  have yes: "level_num level \<le> level_num (log_level (heap st this)) \<longrightarrow>
            Log st this level message console = Some (EmitLog st ?r level ?text ?c) \<and>
            (\<exists>st'. Log st this level message console =
                     Some (if log_facility (heap st ?r) = AndroidLog
                           then Inl (unsupported, st') else Inr st') \<and>
               heap st' = heap st \<and> cerr st' = cerr st \<and>
               syslog_msgs st' =
                 (if log_facility (heap st ?r) = Syslog
                  then syslog_msgs st @ [(MapLogLevelToSysLog level, ?text)]
                  else syslog_msgs st) \<and>
               files st' =
                 (if log_facility (heap st ?r) = File \<and> is_open (log_file (heap st ?r)) \<and>
                     \<not> failbit (log_file (heap st ?r))
                  then (files st)(fname (log_file (heap st ?r)) :=
                         files st (fname (log_file (heap st ?r))) @
                         [stamped st (heap st ?r) level ?text])
                  else files st) \<and>
               clog st' =
                 (if log_facility (heap st ?r) = Console \<or> console \<or> forced st (chain st this)
                  then clog st @
                       [console_line (heap st ?r) level (stamped st (heap st ?r) level ?text)]
                  else clog st))"
  proof
    assume le: "level_num level \<le> level_num (log_level (heap st this))"
    then have l: "Log st this level message console = Some (EmitLog st ?r level ?text ?c)"
      using eq by simp
    show "Log st this level message console = Some (EmitLog st ?r level ?text ?c) \<and>
            (\<exists>st'. Log st this level message console =
                     Some (if log_facility (heap st ?r) = AndroidLog
                           then Inl (unsupported, st') else Inr st') \<and>
               heap st' = heap st \<and> cerr st' = cerr st \<and>
               syslog_msgs st' =
                 (if log_facility (heap st ?r) = Syslog
                  then syslog_msgs st @ [(MapLogLevelToSysLog level, ?text)]
                  else syslog_msgs st) \<and>
               files st' =
                 (if log_facility (heap st ?r) = File \<and> is_open (log_file (heap st ?r)) \<and>
                     \<not> failbit (log_file (heap st ?r))
                  then (files st)(fname (log_file (heap st ?r)) :=
                         files st (fname (log_file (heap st ?r))) @
                         [stamped st (heap st ?r) level ?text])
                  else files st) \<and>
               clog st' =
                 (if log_facility (heap st ?r) = Console \<or> console \<or> forced st (chain st this)
                  then clog st @
                       [console_line (heap st ?r) level (stamped st (heap st ?r) level ?text)]
                  else clog st))"
      using l w by (intro conjI exI [of _ st']) simp_all
  qed
  have cnt: "log_facility (heap st ?r) \<noteq> AndroidLog \<and> sink_ready (heap st ?r) \<longrightarrow>
            (\<exists>st'. Log st this level message console = Some (Inr st') \<and>
               sink_records st' ?r = sink_records st ?r +
                 (if level_num level \<le> level_num (log_level (heap st this)) then 1 else 0))"
  proof
    assume a: "log_facility (heap st ?r) \<noteq> AndroidLog \<and> sink_ready (heap st ?r)"
    show "\<exists>st'. Log st this level message console = Some (Inr st') \<and>
               sink_records st' ?r = sink_records st ?r +
                 (if level_num level \<le> level_num (log_level (heap st this)) then 1 else 0)"
    proof (cases "level_num level \<le> level_num (log_level (heap st this))")
      case False
      then show ?thesis using eq by simp
    next
      case True
      then have "Log st this level message console = Some (Inr st')"
        using eq w(1) a by simp
      moreover have "sink_records st' ?r = sink_records st ?r + 1"
        using w(2,4,5,6) a assms(3)
        by (cases "log_facility (heap st ?r)") (simp_all add: sink_records_def sink_ready_def)
      ultimately show ?thesis using True by simp
    qed
  qed
  from no yes cnt show ?thesis by blast
qed


theorem Log_severity_check_witness:
  "Log quiet_child_tree 1 Info ''hello'' False = Some (Inr quiet_child_tree) \<and>
   Log quiet_child_tree 1 Error ''hello'' False =
     Some (Inr (quiet_child_tree
                  \<lparr>clog := [''2023-08-24T14:38:05.824097 [ERROR] [LTST] hello'']\<rparr>)) \<and>
   sink_records quiet_child_tree 0 = 0 \<and>
   sink_records (quiet_child_tree
                  \<lparr>clog := [''2023-08-24T14:38:05.824097 [ERROR] [LTST] hello'']\<rparr>) 0 = 1"
proof -
  have wf: "wf_heap quiet_child_tree" "1 < allocated quiet_child_tree"
    "log_facility (heap quiet_child_tree (root_of quiet_child_tree 1)) \<noteq> None_Facility"
    by (simp_all add: quiet_child_tree_def two_nodes_wf two_nodes_chain)
  have up: "\<And>level. list_all (accepts quiet_child_tree level) (tl (chain quiet_child_tree 1))"
    by (simp add: quiet_child_tree_def two_nodes_chain accepts_def, case_tac level, simp_all)
  have info: "Log quiet_child_tree 1 Info ''hello'' False = Some (Inr quiet_child_tree)"
    using Log_severity_check [OF wf up, of Info "''hello''" False, THEN conjunct1]
    by (simp add: quiet_child_tree_def)
  have "Log quiet_child_tree 1 Error ''hello'' False =
     Some (EmitLog quiet_child_tree 0 Error ''[LTST] hello'' False)"
    using Log_severity_check [OF wf up, of Error "''hello''" False, THEN conjunct2,
        THEN conjunct1]
    by (simp add: quiet_child_tree_def two_nodes_chain labelled_def forced_def)
  moreover have "EmitLog quiet_child_tree 0 Error ''[LTST] hello'' False =
     Inr (quiet_child_tree\<lparr>clog := [''2023-08-24T14:38:05.824097 [ERROR] [LTST] hello'']\<rparr>)"
    by (simp add: EmitLog_def Let_def write_clog_def timestamp_fixture quiet_child_tree_def
        two_nodes_def)
  ultimately have err: "Log quiet_child_tree 1 Error ''hello'' False =
     Some (Inr (quiet_child_tree
                  \<lparr>clog := [''2023-08-24T14:38:05.824097 [ERROR] [LTST] hello'']\<rparr>))"
    by simp
  have cnt: "sink_records quiet_child_tree 0 = 0"
    "sink_records (quiet_child_tree
                  \<lparr>clog := [''2023-08-24T14:38:05.824097 [ERROR] [LTST] hello'']\<rparr>) 0 = 1"
    by (simp_all add: sink_records_def quiet_child_tree_def two_nodes_def mk_State_def)
  from info err cnt show ?thesis by simp
qed

end
